theory Spec2Isabelle
  imports Main "HOL-Library.AList"
begin

section \<open>JavaScript values\<close>

text \<open>
  The decorators of \<^verbatim>\<open>vue-property-decorator.ts\<close> inspect the shape of the values they are
  handed at run time (\<^verbatim>\<open>typeof\<close>, \<^verbatim>\<open>Array.isArray\<close>, truthiness, \<^verbatim>\<open>instanceof Promise\<close>),
  so values are modelled dynamically. An object is a kind, a prototype link (\<open>JNull\<close>
  when there is none) and its own properties in insertion order. The kinds are the plain
  object, the array, the function, the native promise, and the four built-in prototype
  objects \<^verbatim>\<open>Object.prototype\<close>, \<^verbatim>\<open>Array.prototype\<close>, \<^verbatim>\<open>Function.prototype\<close> and
  \<^verbatim>\<open>Promise.prototype\<close>. Property keys are strings or symbols. A character is a UTF-16
  code unit below 256; numbers are opaque integers (no arithmetic is done on them).
\<close>

datatype pkey = KStr string | KSym nat

datatype jsval =
    JUndefined
  | JNull
  | JBool bool
  | JNum int
  | JStr string
  | JSymbol nat
  | JObject kind jsval "(pkey \<times> jsval) list"
and kind =
    Plain
  | Arr "jsval list"
  | Function func
  | Prom nat
  | ObjectPrototype
  | ArrayPrototype
  | FunctionPrototype
  | PromisePrototype
and func =
    UserFn nat
  | Builtin string
  | ProvideFn jsval
  | EmitterFn jsval string jsval
  | EmitCallback jsval string "jsval list"
  | ArrayPush
  | PromiseThen
  | FunctionApply
  | FunctionCall

text \<open>
  \<open>UserFn n\<close> is a function written by the component author or the host framework,
  identified by \<open>n\<close>; \<open>Builtin s\<close> is the built-in method \<open>s\<close> of \<^verbatim>\<open>Object.prototype\<close>.
  \<open>ProvideFn original\<close> is the closure \<^verbatim>\<open>Provide\<close> creates, \<open>EmitterFn event key original\<close>
  the closure \<^verbatim>\<open>emitter\<close> that \<^verbatim>\<open>Emit\<close> creates, and \<open>EmitCallback event key args\<close> the arrow
  function \<^verbatim>\<open>emitter\<close> hands to \<^verbatim>\<open>then\<close>; each carries the variables the closure captures.
  The \<^verbatim>\<open>this\<close> of the arrow function is the instance the wrapper was called on; its state
  is supplied when the arrow function runs. The last four are the built-in methods
  \<^verbatim>\<open>Array.prototype.push\<close>, \<^verbatim>\<open>Promise.prototype.then\<close>, \<^verbatim>\<open>Function.prototype.apply\<close> and
  \<^verbatim>\<open>Function.prototype.call\<close>.
\<close>

datatype error = TypeError | Thrown jsval

fun bindE :: "error + 'a \<Rightarrow> ('a \<Rightarrow> error + 'b) \<Rightarrow> error + 'b" where
  "bindE (Inl e) f = Inl e"
| "bindE (Inr v) f = f v"

fun typeof :: "jsval \<Rightarrow> string" where
  "typeof JUndefined = ''undefined''"
| "typeof JNull = ''object''"
| "typeof (JBool b) = ''boolean''"
| "typeof (JNum n) = ''number''"
| "typeof (JStr s) = ''string''"
| "typeof (JSymbol n) = ''symbol''"
| "typeof (JObject (Function f) proto ps) = ''function''"
| "typeof (JObject FunctionPrototype proto ps) = ''function''"
| "typeof (JObject k proto ps) = ''object''"

fun truthy :: "jsval \<Rightarrow> bool" where
  "truthy JUndefined = False"
| "truthy JNull = False"
| "truthy (JBool b) = b"
| "truthy (JNum n) = (n \<noteq> 0)"
| "truthy (JStr s) = (s \<noteq> [])"
| "truthy (JSymbol n) = True"
| "truthy (JObject k proto ps) = True"

definition js_or :: "jsval \<Rightarrow> jsval \<Rightarrow> jsval" where
  "js_or a b = (if truthy a then a else b)"

fun isArray :: "jsval \<Rightarrow> bool" where
  "isArray (JObject (Arr xs) proto ps) = True"
| "isArray (JObject ArrayPrototype proto ps) = True"
| "isArray v = False"

fun is_object :: "jsval \<Rightarrow> bool" where
  "is_object (JObject k proto ps) = True"
| "is_object v = False"

fun function_of :: "jsval \<Rightarrow> func option" where
  "function_of (JObject (Function f) proto ps) = Some f"
| "function_of v = None"

definition default_param :: "jsval \<Rightarrow> jsval \<Rightarrow> jsval" where
  "default_param v d = (if v = JUndefined then d else v)"

subsection \<open>The built-in prototypes and the literals\<close>

definition object_prototype :: jsval where
  "object_prototype = JObject ObjectPrototype JNull []"

definition function_prototype :: jsval where
  "function_prototype = JObject FunctionPrototype object_prototype []"

definition array_prototype :: jsval where
  "array_prototype = JObject ArrayPrototype object_prototype []"

definition promise_prototype :: jsval where
  "promise_prototype = JObject PromisePrototype object_prototype []"

text \<open>
  An object literal inherits from \<^verbatim>\<open>Object.prototype\<close>, an array literal from
  \<^verbatim>\<open>Array.prototype\<close> and a function from \<^verbatim>\<open>Function.prototype\<close>; \<^verbatim>\<open>Object.create(null)\<close> is
  \<open>JObject Plain JNull []\<close>.
\<close>

definition empty_object :: jsval where
  "empty_object = JObject Plain object_prototype []"

definition object_literal :: "(string \<times> jsval) list \<Rightarrow> jsval" where
  "object_literal ps = JObject Plain object_prototype (map (\<lambda>(k, v). (KStr k, v)) ps)"

definition array_literal :: "jsval list \<Rightarrow> jsval" where
  "array_literal xs = JObject (Arr xs) array_prototype []"

definition function_object :: "func \<Rightarrow> jsval" where
  "function_object f = JObject (Function f) function_prototype []"

subsection \<open>Reading and writing properties\<close>

text \<open>
  The members the built-in prototypes have of their own. \<^verbatim>\<open>Object.prototype\<close> has its
  methods, which are ordinary writable properties, and the accessor \<^verbatim>\<open>__proto__\<close>, whose
  getter returns the prototype of the object it is read on and whose setter changes it.
  Of \<^verbatim>\<open>Array.prototype\<close> only \<^verbatim>\<open>push\<close>, of \<^verbatim>\<open>Promise.prototype\<close> only \<^verbatim>\<open>then\<close> and of
  \<^verbatim>\<open>Function.prototype\<close> only \<^verbatim>\<open>apply\<close> and \<^verbatim>\<open>call\<close> are modelled, the four the code calls.
  The \<^verbatim>\<open>length\<close> and the index keys of an array and the members of primitive values are
  not modelled, and \<^verbatim>\<open>__proto__\<close> is the only property with a getter and a setter: every
  other property holds a value.
\<close>

datatype member = Data jsval | ProtoAccessor

definition object_prototype_methods :: "string list" where
  "object_prototype_methods =
     [''constructor'', ''__defineGetter__'', ''__defineSetter__'', ''hasOwnProperty'',
      ''__lookupGetter__'', ''__lookupSetter__'', ''isPrototypeOf'', ''propertyIsEnumerable'',
      ''toString'', ''valueOf'', ''toLocaleString'']"

fun builtin_member :: "kind \<Rightarrow> pkey \<Rightarrow> member option" where
  "builtin_member ObjectPrototype (KStr s) =
     (if s = ''__proto__'' then Some ProtoAccessor
      else if s \<in> set object_prototype_methods then Some (Data (function_object (Builtin s)))
      else None)"
| "builtin_member ArrayPrototype (KStr s) =
     (if s = ''push'' then Some (Data (function_object ArrayPush)) else None)"
| "builtin_member PromisePrototype (KStr s) =
     (if s = ''then'' then Some (Data (function_object PromiseThen)) else None)"
| "builtin_member FunctionPrototype (KStr s) =
     (if s = ''apply'' then Some (Data (function_object FunctionApply))
      else if s = ''call'' then Some (Data (function_object FunctionCall))
      else None)"
| "builtin_member k key = None"

text \<open>
  \<open>lookup obj key\<close> walks the prototype chain of \<open>obj\<close> from \<open>obj\<close> itself and returns the
  first property found under \<open>key\<close>.
\<close>

fun lookup :: "jsval \<Rightarrow> pkey \<Rightarrow> member option" where
  "lookup (JObject k proto ps) key =
     (case map_of ps key of
        Some v \<Rightarrow> Some (Data v)
      | None \<Rightarrow> (case builtin_member k key of
           Some m \<Rightarrow> Some m
         | None \<Rightarrow> lookup proto key))"
| "lookup v key = None"

fun prototype_of :: "jsval \<Rightarrow> jsval" where
  "prototype_of (JObject k proto ps) = proto"
| "prototype_of v = JUndefined"

definition get_member :: "jsval \<Rightarrow> pkey \<Rightarrow> jsval" where
  "get_member v key =
     (case lookup v key of
        Some (Data x) \<Rightarrow> x
      | Some ProtoAccessor \<Rightarrow> prototype_of v
      | None \<Rightarrow> JUndefined)"

definition get_prop :: "jsval \<Rightarrow> pkey \<Rightarrow> error + jsval" where
  "get_prop v key =
     (if v = JUndefined \<or> v = JNull then Inl TypeError else Inr (get_member v key))"

text \<open>
  An assignment \<^verbatim>\<open>obj[key] = v\<close>. When the property found on the chain is the accessor
  \<^verbatim>\<open>__proto__\<close>, its setter makes \<open>v\<close> the prototype of \<open>obj\<close> if \<open>v\<close> is an object or
  \<^verbatim>\<open>null\<close> and does nothing otherwise; in every other case \<open>obj\<close> gets or keeps an own
  property \<open>key\<close> with the value \<open>v\<close>. The file is strict-mode code (\<^verbatim>\<open>'use strict'\<close>), so
  an assignment to a property of a primitive raises a \<^verbatim>\<open>TypeError\<close>, as one to a property
  of \<^verbatim>\<open>undefined\<close> or \<^verbatim>\<open>null\<close> does.

  Limits: every property is writable and every object extensible; and objects are
  values, so that two objects are told apart by what they hold, not by their identity.
  Hence the model does not see an assignment to \<^verbatim>\<open>__proto__\<close> that would make a prototype
  chain cyclic (a \<^verbatim>\<open>TypeError\<close> in JavaScript), and two references to one object are two
  values.
\<close>

fun set_prop :: "jsval \<Rightarrow> pkey \<Rightarrow> jsval \<Rightarrow> error + jsval" where
  "set_prop (JObject k proto ps) key v =
     (case lookup (JObject k proto ps) key of
        Some ProtoAccessor \<Rightarrow>
          Inr (if is_object v \<or> v = JNull then JObject k v ps else JObject k proto ps)
      | _ \<Rightarrow> Inr (JObject k proto (AList.update key v ps)))"
| "set_prop obj key v = Inl TypeError"

text \<open>
  A method call such as \<^verbatim>\<open>obj[key].push(x)\<close> changes the object \<^verbatim>\<open>obj[key]\<close> in place.
  \<open>replace_member obj key v\<close> puts the changed object \<open>v\<close> where \<open>get_member obj key\<close>
  found the object: in the own property, in the object of the chain that has the
  property, or as the prototype when the accessor \<^verbatim>\<open>__proto__\<close> gave it.
\<close>

fun replace_at :: "jsval \<Rightarrow> pkey \<Rightarrow> jsval \<Rightarrow> jsval" where
  "replace_at (JObject k proto ps) key v =
     (case map_of ps key of
        Some x \<Rightarrow> JObject k proto (AList.update key v ps)
      | None \<Rightarrow> (case builtin_member k key of
           Some m \<Rightarrow> JObject k proto ps
         | None \<Rightarrow> JObject k (replace_at proto key v) ps))"
| "replace_at obj key v = obj"

definition replace_member :: "jsval \<Rightarrow> pkey \<Rightarrow> jsval \<Rightarrow> jsval" where
  "replace_member obj key v =
     (case lookup obj key of
        Some ProtoAccessor \<Rightarrow>
          (case obj of JObject k proto ps \<Rightarrow> JObject k v ps | _ \<Rightarrow> obj)
      | _ \<Rightarrow> replace_at obj key v)"

fun object_create :: "jsval \<Rightarrow> error + jsval" where
  "object_create JNull = Inr (JObject Plain JNull [])"
| "object_create (JObject k proto ps) = Inr (JObject Plain (JObject k proto ps) [])"
| "object_create v = Inl TypeError"

section \<open>The component options and the registrars\<close>

record component_options =
  props :: jsval
  inject :: jsval
  provide :: jsval
  watch :: jsval
  model :: jsval

text \<open>
  \<^verbatim>\<open>createDecorator(f)\<close> of vue-class-component calls \<open>f\<close> with the component's options and
  the name of the decorated member when the component is built. A registrar is therefore
  a function from the options and the key to the updated options, or to the error it
  raises.
\<close>

definition Prop :: "jsval \<Rightarrow> component_options \<Rightarrow> string \<Rightarrow> error + component_options" where
  "Prop options0 componentOptions k =
     (let options = default_param options0 empty_object;
          componentOptions1 =
            (if truthy (props componentOptions) then componentOptions
             else componentOptions\<lparr>props := empty_object\<rparr>)
      in bindE (set_prop (props componentOptions1) (KStr k) options)
           (\<lambda>p. Inr (componentOptions1\<lparr>props := p\<rparr>)))"


definition Inject :: "jsval \<Rightarrow> component_options \<Rightarrow> string \<Rightarrow> error + component_options" where
  "Inject options componentOptions key =
     (let componentOptions1 =
            (if typeof (inject componentOptions) = ''undefined''
             then componentOptions\<lparr>inject := empty_object\<rparr>
             else componentOptions)
      in if \<not> isArray (inject componentOptions1)
         then bindE (set_prop (inject componentOptions1) (KStr key) (js_or options (JStr key)))
                (\<lambda>i. Inr (componentOptions1\<lparr>inject := i\<rparr>))
         else Inr componentOptions1)"


text \<open>
  \<^verbatim>\<open>provide.managed[k] = key || k\<close> changes the \<^verbatim>\<open>managed\<close> object in place; the model puts
  the changed object back into the function and the function back into the options.
\<close>

subsection \<open>Code outside this file\<close>

text \<open>
  Functions that are not closures of this file (the original \<^verbatim>\<open>provide\<close> function, the
  decorated method, \<^verbatim>\<open>$emit\<close> of the instance, a \<^verbatim>\<open>then\<close> of a third-party promise) and the
  conversion of a value that is neither a string nor a symbol to a property key are
  parameters of the model. \<open>call_function h f this args\<close> is the call of \<open>f\<close> on \<open>this\<close>
  with the arguments \<open>args\<close>: it returns a value or throws, and it may change the object
  it is called on, whose state after the call is the second component.
\<close>

record host =
  call_function :: "jsval \<Rightarrow> jsval \<Rightarrow> jsval list \<Rightarrow> (error + jsval) \<times> jsval"
  to_string :: "jsval \<Rightarrow> error + string"

fun to_property_key :: "host \<Rightarrow> jsval \<Rightarrow> error + pkey" where
  "to_property_key h (JStr s) = Inr (KStr s)"
| "to_property_key h (JSymbol n) = Inr (KSym n)"
| "to_property_key h v = bindE (to_string h v) (\<lambda>s. Inr (KStr s))"

text \<open>
  What a call of a function does: how it ends (the value it returns or the error it
  throws), the state of the instance it was called on after the call, the calls of
  \<^verbatim>\<open>this.$emit\<close> the wrappers of this file made themselves during the call, in order, each
  with the event name and the remaining arguments, and the calls \<^verbatim>\<open>returnValue.then(...)\<close>
  they made, each with the value \<^verbatim>\<open>then\<close> was called on and the arguments. What code
  outside this file does while it runs, a call of \<^verbatim>\<open>$emit\<close> of its own or a call of a
  callback it was handed, is not listed.
\<close>

record call_result =
  outcome :: "error + jsval"
  this_after :: jsval
  emitted :: "(jsval \<times> jsval list) list"
  then_calls :: "(jsval \<times> jsval list) list"

definition finished :: "error + jsval \<Rightarrow> jsval \<Rightarrow> call_result" where
  "finished r this = \<lparr>outcome = r, this_after = this, emitted = [], then_calls = []\<rparr>"

definition host_call :: "host \<Rightarrow> jsval \<Rightarrow> jsval \<Rightarrow> jsval list \<Rightarrow> call_result" where
  "host_call h f this args =
     (case call_function h f this args of (r, this1) \<Rightarrow> finished r this1)"

subsection \<open>The function Provide installs\<close>

fun string_keys :: "(pkey \<times> jsval) list \<Rightarrow> string list" where
  "string_keys [] = []"
| "string_keys ((KStr s, v) # ps) = s # string_keys ps"
| "string_keys ((KSym n, v) # ps) = string_keys ps"

text \<open>
  \<^verbatim>\<open>for (let i in obj)\<close> visits the string keys of the object and then those of its
  prototype chain that were not visited before; the members of the built-in prototypes
  are not enumerable. The model visits the keys of an object in insertion order;
  integer-like keys, which JavaScript visits first, are not treated specially.
\<close>

fun for_in_keys :: "jsval \<Rightarrow> string list" where
  "for_in_keys (JObject k proto ps) =
     (let own = string_keys ps
      in own @ filter (\<lambda>s. s \<notin> set own) (for_in_keys proto))"
| "for_in_keys v = []"

fun provide_loop :: "host \<Rightarrow> jsval \<Rightarrow> jsval \<Rightarrow> string list \<Rightarrow> jsval \<Rightarrow> error + jsval" where
  "provide_loop h managed this [] rv = Inr rv"
| "provide_loop h managed this (i # rest) rv =
     bindE (to_property_key h (get_member managed (KStr i))) (\<lambda>key.
     bindE (get_prop this (KStr i)) (\<lambda>v.
     bindE (set_prop rv key v) (\<lambda>rv1.
     provide_loop h managed this rest rv1)))"

text \<open>
  \<open>provide_function h provide1 called\<close> is the body of the closure after the first step:
  \<open>provide1\<close> is the closure itself (the variable \<^verbatim>\<open>provide\<close> it captures), whose \<^verbatim>\<open>managed\<close>
  it reads when it is called, and \<open>called\<close> is what
  \<^verbatim>\<open>typeof original === 'function' ? original.call(this) : original\<close> did. The fields are
  read from the instance as that step left it.
\<close>

definition provide_function :: "host \<Rightarrow> jsval \<Rightarrow> call_result \<Rightarrow> call_result" where
  "provide_function h provide1 called =
     (case outcome called of
        Inl e \<Rightarrow> called
      | Inr base \<Rightarrow>
          (case object_create (js_or base JNull) of
             Inl e \<Rightarrow> called\<lparr>outcome := Inl e\<rparr>
           | Inr rv \<Rightarrow>
               (let managed = get_member provide1 (KStr ''managed'')
                in called\<lparr>outcome :=
                     provide_loop h managed (this_after called) (for_in_keys managed) rv\<rparr>)))"

subsection \<open>Watch\<close>

definition call_push :: "host \<Rightarrow> jsval \<Rightarrow> jsval \<Rightarrow> error + jsval" where
  "call_push h target x =
     (if target = JUndefined \<or> target = JNull then Inl TypeError
      else (let f = get_member target (KStr ''push'')
            in if typeof f \<noteq> ''function'' then Inl TypeError
               else (case (f, target) of
                       (JObject (Function ArrayPush) fproto fps, JObject (Arr xs) proto ps) \<Rightarrow>
                         Inr (JObject (Arr (xs @ [x])) proto ps)
                     | _ \<Rightarrow> (case call_function h f target [x] of
                               (Inl e, target1) \<Rightarrow> Inl e
                             | (Inr r, target1) \<Rightarrow> Inr target1))))"

text \<open>
  \<open>call_push h target x\<close> is \<^verbatim>\<open>target.push(x)\<close> and returns the target after the call: an
  array with \<open>x\<close> appended; a \<^verbatim>\<open>TypeError\<close> when the target has no callable \<^verbatim>\<open>push\<close>.
\<close>

definition Watch ::
  "host \<Rightarrow> string \<Rightarrow> jsval \<Rightarrow> component_options \<Rightarrow> string \<Rightarrow> error + component_options" where
  "Watch h path options0 componentOptions handler =
     (let options = default_param options0 empty_object
      in bindE (get_prop options (KStr ''deep'')) (\<lambda>d.
         bindE (get_prop options (KStr ''immediate'')) (\<lambda>i.
         (let deep = default_param d (JBool False);
              immediate = default_param i (JBool False);
              componentOptions1 =
                (if typeof (watch componentOptions) \<noteq> ''object''
                 then componentOptions\<lparr>watch := JObject Plain JNull []\<rparr>
                 else componentOptions);
              watch0 = watch componentOptions1
          in bindE (get_prop watch0 (KStr path)) (\<lambda>entry.
             bindE (if typeof entry = ''object'' \<and> \<not> isArray entry
                    then set_prop watch0 (KStr path) (array_literal [entry])
                    else if typeof entry = ''undefined''
                    then set_prop watch0 (KStr path) (array_literal [])
                    else Inr watch0) (\<lambda>watch1.
             bindE (call_push h (get_member watch1 (KStr path))
                      (object_literal
                         [(''handler'', JStr handler), (''deep'', deep), (''immediate'', immediate)]))
                   (\<lambda>entry1.
             Inr (componentOptions1
                    \<lparr>watch := replace_member watch1 (KStr path) entry1\<rparr>))))))))"

text \<open>
  The destructuring \<^verbatim>\<open>const { deep = false, immediate = false } = options\<close> runs when
  \<^verbatim>\<open>Watch(path, options)\<close> is called and the rest when the component is built; the model
  runs both in this order in one function. The second argument \<^verbatim>\<open>createDecorator\<close> passes
  is the name of the decorated method, so the descriptor's \<^verbatim>\<open>handler\<close> is that name.
  \<^verbatim>\<open>watch[path].push(...)\<close> changes the array in place, wherever on the prototype chain of
  \<^verbatim>\<open>watch\<close> it was found.
\<close>

section \<open>Emit\<close>

subsection \<open>hyphenate\<close>

definition is_upper_AZ :: "char \<Rightarrow> bool" where
  "is_upper_AZ c = ((of_char c :: nat) \<in> {65..90})"

definition is_word_char :: "char \<Rightarrow> bool" where
  "is_word_char c =
     (let n = (of_char c :: nat)
      in n \<in> {65..90} \<or> n \<in> {97..122} \<or> n \<in> {48..57} \<or> n = 95)"

fun word_at :: "char option \<Rightarrow> bool" where
  "word_at None = False"
| "word_at (Some c) = is_word_char c"

definition non_word_boundary :: "char option \<Rightarrow> char option \<Rightarrow> bool" where
  "non_word_boundary before after = (word_at before = word_at after)"

text \<open>
  \<^verbatim>\<open>\B\<close> holds at a position when the characters before and after it are both word
  characters (\<^verbatim>\<open>[A-Za-z0-9_]\<close>) or both are not; the start and the end of the string
  count as not a word character. \<open>replace_hyphenateRE before str\<close> is
  \<^verbatim>\<open>str.replace(/\B([A-Z])/g, '-$1')\<close> on the part \<open>str\<close> of a string whose character
  before that part is \<open>before\<close>.
\<close>

fun replace_hyphenateRE :: "char option \<Rightarrow> string \<Rightarrow> string" where
  "replace_hyphenateRE before [] = []"
| "replace_hyphenateRE before (c # cs) =
     (if non_word_boundary before (Some c) \<and> is_upper_AZ c
      then CHR ''-'' # c # replace_hyphenateRE (Some c) cs
      else c # replace_hyphenateRE (Some c) cs)"

definition lower_char :: "char \<Rightarrow> char" where
  "lower_char c =
     (let n = (of_char c :: nat)
      in if n \<in> {65..90} \<or> (n \<in> {192..222} \<and> n \<noteq> 215) then char_of (n + 32) else c)"

definition toLowerCase :: "string \<Rightarrow> string" where
  "toLowerCase str = map lower_char str"

definition hyphenate :: "string \<Rightarrow> string" where
  "hyphenate str = toLowerCase (replace_hyphenateRE None str)"

subsection \<open>The wrapper\<close>

record property_descriptor =
  descriptor_value :: jsval

definition Emit :: "jsval \<Rightarrow> string \<Rightarrow> property_descriptor \<Rightarrow> property_descriptor" where
  "Emit event key0 descriptor =
     (let key = hyphenate key0;
          original = descriptor_value descriptor
      in descriptor\<lparr>descriptor_value := function_object (EmitterFn event key original)\<rparr>)"

text \<open>
  \<^verbatim>\<open>obj instanceof Promise\<close> holds when \<^verbatim>\<open>Promise.prototype\<close> is on the prototype chain of
  \<open>obj\<close> above \<open>obj\<close> itself. A native promise is an object made by the \<^verbatim>\<open>Promise\<close>
  constructor; the built-in \<^verbatim>\<open>then\<close> works on these only.
\<close>

fun on_promise_chain :: "jsval \<Rightarrow> bool" where
  "on_promise_chain (JObject k proto ps) = (k = PromisePrototype \<or> on_promise_chain proto)"
| "on_promise_chain v = False"

definition instanceof_Promise :: "jsval \<Rightarrow> bool" where
  "instanceof_Promise obj = on_promise_chain (prototype_of obj)"

fun is_native_promise :: "jsval \<Rightarrow> bool" where
  "is_native_promise (JObject (Prom n) proto ps) = True"
| "is_native_promise v = False"

definition isPromise :: "jsval \<Rightarrow> bool" where
  "isPromise obj =
     (instanceof_Promise obj \<or> (truthy obj \<and> typeof (get_member obj (KStr ''then'')) = ''function''))"

text \<open>
  \<open>unshift returnValue args\<close> is the array \<^verbatim>\<open>args\<close> after
  \<^verbatim>\<open>if (returnValue !== undefined) args.unshift(returnValue)\<close>, and \<open>emit\<close> the arrow function
  \<^verbatim>\<open>emit\<close> called on the instance in the state \<open>this\<close>: it reads \<^verbatim>\<open>this.$emit\<close>, which
  raises a \<^verbatim>\<open>TypeError\<close> when \<^verbatim>\<open>this\<close> is \<^verbatim>\<open>undefined\<close> or \<^verbatim>\<open>null\<close>, and calls it, which raises
  one when it is not a function; the value \<^verbatim>\<open>$emit\<close> returns is dropped. \<^verbatim>\<open>$emit\<close> is the
  method of the host framework and is called as code outside this file.
\<close>

definition unshift :: "jsval \<Rightarrow> jsval list \<Rightarrow> jsval list" where
  "unshift returnValue args = (if returnValue \<noteq> JUndefined then returnValue # args else args)"

definition emit :: "host \<Rightarrow> jsval \<Rightarrow> string \<Rightarrow> jsval \<Rightarrow> jsval list \<Rightarrow> jsval \<Rightarrow> call_result" where
  "emit h event key this args returnValue =
     (let args1 = unshift returnValue args
      in if this = JUndefined \<or> this = JNull then finished (Inl TypeError) this
         else (let emit_member = get_member this (KStr ''$emit'')
               in if typeof emit_member \<noteq> ''function'' then finished (Inl TypeError) this
                  else (case call_function h emit_member this (js_or event (JStr key) # args1) of
                          (r, this1) \<Rightarrow>
                            \<lparr>outcome = (case r of Inl e \<Rightarrow> Inl e | Inr x \<Rightarrow> Inr JUndefined),
                             this_after = this1,
                             emitted = [(js_or event (JStr key), args1)],
                             then_calls = []\<rparr>)))"

text \<open>
  \<open>emitter h event key original applied args\<close> is the body of the wrapper after its first
  step, where \<open>applied\<close> is what \<^verbatim>\<open>original.apply(this, args)\<close> did. The built-in \<^verbatim>\<open>then\<close>
  registers the callback on a native promise and returns (it raises a \<^verbatim>\<open>TypeError\<close> on
  anything else); another \<^verbatim>\<open>then\<close> is code outside this file, called with the callback.
  The wrapper makes no call of \<^verbatim>\<open>$emit\<close> itself in this branch; the one the callback makes
  when it is called, by the promise at fulfilment or by the code of another \<^verbatim>\<open>then\<close>
  whenever that chooses to, is given by \<open>run_callback\<close> below.
\<close>

definition emitter ::
  "host \<Rightarrow> jsval \<Rightarrow> string \<Rightarrow> jsval \<Rightarrow> call_result \<Rightarrow> jsval list \<Rightarrow> call_result" where
  "emitter h event key original applied args =
     (case outcome applied of
        Inl e \<Rightarrow> applied
      | Inr returnValue \<Rightarrow>
          if isPromise returnValue
          then (let callback = function_object (EmitCallback event key args);
                    then_member = get_member returnValue (KStr ''then'')
                in if typeof then_member \<noteq> ''function''
                   then applied\<lparr>outcome := Inl TypeError\<rparr>
                   else (case (if function_of then_member = Some PromiseThen
                               then (if is_native_promise returnValue then Inr JUndefined
                                     else Inl TypeError)
                               else fst (call_function h then_member returnValue [callback])) of
                           Inl e \<Rightarrow>
                             applied\<lparr>outcome := Inl e,
                                     then_calls := then_calls applied @ [(returnValue, [callback])]\<rparr>
                         | Inr r \<Rightarrow>
                             applied\<lparr>outcome := Inr JUndefined,
                                     then_calls := then_calls applied @ [(returnValue, [callback])]\<rparr>))
          else (let sent = emit h event key (this_after applied) args returnValue
                in \<lparr>outcome = outcome sent,
                    this_after = this_after sent,
                    emitted = emitted applied @ emitted sent,
                    then_calls = then_calls applied\<rparr>))"

subsection \<open>Calling a function value\<close>

text \<open>
  \<open>invoke h f this args\<close> is a call of \<open>f\<close> on \<open>this\<close> with the arguments \<open>args\<close>. The
  closures \<^verbatim>\<open>Emit\<close> and \<^verbatim>\<open>Provide\<close> install run their bodies, which first call the function
  they wrap, through its member \<^verbatim>\<open>apply\<close> (\<^verbatim>\<open>original.apply(this, args)\<close>) or \<^verbatim>\<open>call\<close>
  (\<^verbatim>\<open>original.call(this)\<close>): the built-in method calls the function, and raises a
  \<^verbatim>\<open>TypeError\<close> when it is not one; a member that is not a function cannot be called. Any
  other function is code outside this file, and a value that is not a function cannot
  be called.

  Limits: a function put in the place of the built-in \<^verbatim>\<open>apply\<close> or \<^verbatim>\<open>call\<close> is code outside
  this file that is handed the instance and the arguments; the model takes it to leave
  both as they are. The arrow function a wrapper hands to \<^verbatim>\<open>then\<close> is called by the promise
  or by the code of \<^verbatim>\<open>then\<close>, as \<open>run_callback\<close> describes, and is not meant to be called
  as a method; and the members \<^verbatim>\<open>$emit\<close>, \<^verbatim>\<open>then\<close> and \<^verbatim>\<open>push\<close> the code calls are taken to
  be code outside this file, not closures that \<^verbatim>\<open>Emit\<close> or \<^verbatim>\<open>Provide\<close> installed.
\<close>

fun invoke :: "host \<Rightarrow> jsval \<Rightarrow> jsval \<Rightarrow> jsval list \<Rightarrow> call_result" where
  "invoke h (JObject (Function (EmitterFn event key original)) proto ps) this args =
     (let apply_member = get_member original (KStr ''apply'')
      in if function_of apply_member = Some FunctionApply
         then (if typeof original \<noteq> ''function'' then finished (Inl TypeError) this
               else emitter h event key original (invoke h original this args) args)
         else if typeof apply_member = ''function''
         then emitter h event key original
                (finished (fst (call_function h apply_member original [this, array_literal args]))
                   this) args
         else finished (Inl TypeError) this)"
| "invoke h (JObject (Function (ProvideFn original)) proto ps) this args =
     provide_function h (JObject (Function (ProvideFn original)) proto ps)
       (if typeof original = ''function''
        then (let call_member = get_member original (KStr ''call'')
              in if function_of call_member = Some FunctionCall
                 then invoke h original this []
                 else if typeof call_member = ''function''
                 then finished (fst (call_function h call_member original [this])) this
                 else finished (Inl TypeError) this)
        else finished (Inr original) this)"
| "invoke h f this args =
     (if typeof f = ''function'' then host_call h f this args
      else finished (Inl TypeError) this)"

definition call_method ::
  "host \<Rightarrow> property_descriptor \<Rightarrow> jsval \<Rightarrow> jsval list \<Rightarrow> call_result" where
  "call_method h descriptor this args = invoke h (descriptor_value descriptor) this args"

subsection \<open>Settlement of a deferred value\<close>

text \<open>
  \<^verbatim>\<open>then(onFulfilled, onRejected)\<close> of a promise calls \<open>onFulfilled\<close> with the value once the
  promise is fulfilled and \<open>onRejected\<close> with the reason once it is rejected; an argument
  that is missing or not a function is skipped and the settlement passes on to the
  promise \<^verbatim>\<open>then\<close> returned. \<open>run_callback h callback this v\<close> is the call of a callback
  with \<open>v\<close> while the instance of the wrapper is in the state \<open>this\<close>: what the call does,
  and the callback after the call, whose captured \<^verbatim>\<open>args\<close> the call may have changed.
  \<open>on_settled\<close> is what a call of \<^verbatim>\<open>then\<close> leads to when the value it was called on
  settles, and \<open>handles_rejection\<close> whether the call of \<^verbatim>\<open>then\<close> passed a function for the
  rejection.
\<close>

datatype settlement = Fulfilled jsval | Rejected jsval

definition run_callback :: "host \<Rightarrow> jsval \<Rightarrow> jsval \<Rightarrow> jsval \<Rightarrow> call_result \<times> jsval" where
  "run_callback h callback this v =
     (case callback of
        JObject (Function (EmitCallback event key args)) proto ps \<Rightarrow>
          (emit h event key this args v,
           JObject (Function (EmitCallback event key (unshift v args))) proto ps)
      | _ \<Rightarrow>
          (if typeof callback = ''function''
           then (finished (fst (call_function h callback JUndefined [v])) this, callback)
           else (finished (Inr JUndefined) this, callback)))"

fun on_settled :: "host \<Rightarrow> jsval list \<Rightarrow> jsval \<Rightarrow> settlement \<Rightarrow> call_result" where
  "on_settled h (onFulfilled # rest) this (Fulfilled v) = fst (run_callback h onFulfilled this v)"
| "on_settled h (onFulfilled # onRejected # rest) this (Rejected e) =
     fst (run_callback h onRejected this e)"
| "on_settled h then_args this s = finished (Inr JUndefined) this"

fun handles_rejection :: "jsval list \<Rightarrow> bool" where
  "handles_rejection (onFulfilled # onRejected # rest) = (typeof onRejected = ''function'')"
| "handles_rejection then_args = False"

section \<open>Vocabulary of the properties\<close>

text \<open>Options in which none of the five fields is present.\<close>

definition no_options :: component_options where
  "no_options =
     \<lparr>props = JUndefined, inject = JUndefined, provide = JUndefined,
      watch = JUndefined, model = JUndefined\<rparr>"

text \<open>
  A mapping: a plain object that inherits from \<^verbatim>\<open>Object.prototype\<close>, as an object
  literal does, or from nothing, as \<^verbatim>\<open>Object.create(null)\<close> does.
\<close>

fun is_mapping :: "jsval \<Rightarrow> bool" where
  "is_mapping (JObject Plain proto ps) = (proto = object_prototype \<or> proto = JNull)"
| "is_mapping v = False"




text \<open>
  The default event name in the specification's words: each upper-case letter after the
  first character is preceded by a hyphen and lower-cased, and the first character is
  left as it is.
\<close>

fun spec_hyphenate :: "string \<Rightarrow> string" where
  "spec_hyphenate [] = []"
| "spec_hyphenate (c # cs) =
     c # concat (map (\<lambda>d. if is_upper_AZ d then [CHR ''-'', lower_char d] else [d]) cs)"

text \<open>
  The default event name character by character: every character is lower-cased, and
  a character after the first is preceded by a hyphen when it is an upper-case letter
  \<^verbatim>\<open>A\<close> to \<^verbatim>\<open>Z\<close> and the character before it is a word character.
\<close>

fun hyphen_case :: "string \<Rightarrow> string" where
  "hyphen_case [] = []"
| "hyphen_case (c # cs) =
     lower_char c #
     concat (map (\<lambda>(before, d). if is_word_char before \<and> is_upper_AZ d
                                  then [CHR ''-'', lower_char d] else [lower_char d])
               (zip (c # cs) cs))"

text \<open>
  A function that is code outside this file: a function, and not one of the closures
  \<^verbatim>\<open>Emit\<close> and \<^verbatim>\<open>Provide\<close> create.
\<close>

fun outside_function :: "jsval \<Rightarrow> bool" where
  "outside_function (JObject (Function (ProvideFn original)) proto ps) = False"
| "outside_function (JObject (Function (EmitterFn event key original)) proto ps) = False"
| "outside_function (JObject (Function (EmitCallback event key args)) proto ps) = False"
| "outside_function v = (typeof v = ''function'')"

text \<open>
  The arrow function \<^verbatim>\<open>returnValue => { emit(returnValue) }\<close> the wrapper passes to \<^verbatim>\<open>then\<close>
  in a call with the arguments \<open>args\<close>.
\<close>

definition emit_callback :: "jsval \<Rightarrow> string \<Rightarrow> jsval list \<Rightarrow> jsval" where
  "emit_callback event key args = function_object (EmitCallback event key args)"

text \<open>
  A host in which every call of outside code returns \<open>v\<close> and leaves the object it is
  called on as it is, and a component instance whose only member is the \<^verbatim>\<open>$emit\<close> of the
  host framework.
\<close>

definition const_host :: "jsval \<Rightarrow> host" where
  "const_host v =
     \<lparr>call_function = (\<lambda>f this args. (Inr v, this)),
      to_string = (\<lambda>x. Inr ''[object Object]'')\<rparr>"


definition component :: jsval where
  "component = object_literal [(''$emit'', function_object (UserFn 1))]"

section \<open>Properties\<close>



lemma lookup_update:
  "lookup (JObject k proto (AList.update key v ps)) key = Some (Data v)"
  by (simp add: update_conv')

lemma get_member_update:
  "get_member (JObject k proto (AList.update key v ps)) key = v"
  by (simp add: get_member_def update_conv')

subsection \<open>Model\<close>




subsection \<open>Keys other than \<^verbatim>\<open>__proto__\<close>\<close>

lemma lookup_accessor_key:
  "lookup obj key = Some ProtoAccessor \<Longrightarrow> key = KStr ''__proto__''"
proof (induction obj key rule: lookup.induct)
  case (1 k proto ps key)
  show ?case
  proof (cases "map_of ps key")
    case (Some v)
    with "1.prems" show ?thesis by simp
  next
    case None
    show ?thesis
    proof (cases "builtin_member k key")
      case (Some m)
      with None "1.prems" have "builtin_member k key = Some ProtoAccessor" by simp
      then show ?thesis
        by (cases k; cases key) (auto split: if_splits)
    next
      case n: None
      with None "1.prems" "1.IH" show ?thesis by simp
    qed
  qed
qed simp_all

lemma set_prop_ordinary_key:
  assumes "key \<noteq> KStr ''__proto__''"
  shows "set_prop (JObject k proto ps) key v = Inr (JObject k proto (AList.update key v ps))"
proof -
  have "lookup (JObject k proto ps) key \<noteq> Some ProtoAccessor"
    using assms lookup_accessor_key by blast
  then show ?thesis
    by (cases "lookup (JObject k proto ps) key") (auto split: member.split)
qed

lemma is_mapping_cases:
  "is_mapping v \<Longrightarrow> \<exists>proto ps. v = JObject Plain proto ps \<and> (proto = object_prototype \<or> proto = JNull)"
  by (cases v rule: is_mapping.cases) auto

subsection \<open>Prop\<close>

text \<open>
  C7, as the code has it. Applied to options without a \<^verbatim>\<open>props\<close> field, \<^verbatim>\<open>Prop(o1)\<close> on a
  member \<open>k\<close> other than \<^verbatim>\<open>__proto__\<close> creates the \<^verbatim>\<open>props\<close> mapping, an object literal
  with the single entry \<open>k: o1\<close>, so \<^verbatim>\<open>props[k]\<close> is \<open>o1\<close>. Applying \<^verbatim>\<open>Prop(o2)\<close> on the same
  member afterwards leaves the single entry \<open>k: o2\<close>: the second record replaces the first
  and no error is raised. On the member \<^verbatim>\<open>__proto__\<close> the assignment of an object \<open>o1\<close>
  adds no entry: it makes \<open>o1\<close> the prototype of the new \<^verbatim>\<open>props\<close> object, and
  \<^verbatim>\<open>props['__proto__']\<close> reads \<open>o1\<close> when \<open>o1\<close> itself inherits the accessor \<^verbatim>\<open>__proto__\<close> of
  \<^verbatim>\<open>Object.prototype\<close>.
\<close>

theorem Prop_registers:
  assumes "props co = JUndefined" and "o1 \<noteq> JUndefined" and "o2 \<noteq> JUndefined"
  shows "(k \<noteq> ''__proto__'' \<longrightarrow>
            Prop o1 co k = Inr (co\<lparr>props := JObject Plain object_prototype [(KStr k, o1)]\<rparr>)
          \<and> get_member (JObject Plain object_prototype [(KStr k, o1)]) (KStr k) = o1
          \<and> bindE (Prop o1 co k) (\<lambda>c. Prop o2 c k)
              = Inr (co\<lparr>props := JObject Plain object_prototype [(KStr k, o2)]\<rparr>)
          \<and> get_member (JObject Plain object_prototype [(KStr k, o2)]) (KStr k) = o2)
       \<and> (is_object o1 \<longrightarrow>
            Prop o1 co ''__proto__'' = Inr (co\<lparr>props := JObject Plain o1 []\<rparr>)
          \<and> (lookup o1 (KStr ''__proto__'') = Some ProtoAccessor \<longrightarrow>
               get_member (JObject Plain o1 []) (KStr ''__proto__'') = o1))"
proof (intro conjI impI)
  assume k: "k \<noteq> ''__proto__''"
  then have kk: "KStr k \<noteq> KStr ''__proto__''" by simp
  show 1: "Prop o1 co k = Inr (co\<lparr>props := JObject Plain object_prototype [(KStr k, o1)]\<rparr>)"
    using assms
    by (simp add: Prop_def default_param_def empty_object_def set_prop_ordinary_key [OF kk]
        del: set_prop.simps)
  show "get_member (JObject Plain object_prototype [(KStr k, o1)]) (KStr k) = o1"
    by (simp add: get_member_def)
  have 2: "Prop o2 (co\<lparr>props := JObject Plain object_prototype [(KStr k, o1)]\<rparr>) k
          = Inr (co\<lparr>props := JObject Plain object_prototype [(KStr k, o2)]\<rparr>)"
    using assms
    by (simp add: Prop_def default_param_def set_prop_ordinary_key [OF kk]
        del: set_prop.simps)
  show "bindE (Prop o1 co k) (\<lambda>c. Prop o2 c k)
          = Inr (co\<lparr>props := JObject Plain object_prototype [(KStr k, o2)]\<rparr>)"
    by (simp only: 1 bindE.simps 2)
  show "get_member (JObject Plain object_prototype [(KStr k, o2)]) (KStr k) = o2"
    by (simp add: get_member_def)
next
  assume o: "is_object o1"
  show "Prop o1 co ''__proto__'' = Inr (co\<lparr>props := JObject Plain o1 []\<rparr>)"
    using assms o
    by (simp add: Prop_def default_param_def empty_object_def object_prototype_def)
next
  assume "is_object o1" and "lookup o1 (KStr ''__proto__'') = Some ProtoAccessor"
  then show "get_member (JObject Plain o1 []) (KStr ''__proto__'') = o1"
    by (simp add: get_member_def)
qed

theorem Prop_registers_witness:
  "props no_options = JUndefined
   \<and> object_literal [(''type'', JStr ''String'')] \<noteq> JUndefined
   \<and> object_literal [(''required'', JBool True)] \<noteq> JUndefined
   \<and> Prop (object_literal [(''type'', JStr ''String'')]) no_options ''title''
       = Inr (no_options\<lparr>props := JObject Plain object_prototype
                [(KStr ''title'', object_literal [(''type'', JStr ''String'')])]\<rparr>)
   \<and> bindE (Prop (object_literal [(''type'', JStr ''String'')]) no_options ''title'')
        (\<lambda>c. Prop (object_literal [(''required'', JBool True)]) c ''title'')
       = Inr (no_options\<lparr>props := JObject Plain object_prototype
                [(KStr ''title'', object_literal [(''required'', JBool True)])]\<rparr>)
   \<and> Prop (object_literal [(''type'', JStr ''String'')]) no_options ''__proto__''
       = Inr (no_options\<lparr>props :=
                JObject Plain (object_literal [(''type'', JStr ''String'')]) []\<rparr>)
   \<and> get_member (JObject Plain (object_literal [(''type'', JStr ''String'')]) [])
        (KStr ''__proto__'')
       = object_literal [(''type'', JStr ''String'')]"
proof -
  have a: "props no_options = JUndefined"
    by (simp add: no_options_def)
  have b: "object_literal [(''type'', JStr ''String'')] \<noteq> JUndefined"
    "object_literal [(''required'', JBool True)] \<noteq> JUndefined"
    by (simp_all add: object_literal_def)
  have c: "''title'' \<noteq> ''__proto__''"
    by simp
  have d: "is_object (object_literal [(''type'', JStr ''String'')])"
    by (simp add: object_literal_def)
  have e: "lookup (object_literal [(''type'', JStr ''String'')]) (KStr ''__proto__'')
            = Some ProtoAccessor"
    by (simp add: object_literal_def object_prototype_def)
  note t = Prop_registers [OF a b, of "''title''"]
  show ?thesis
    using a b t [THEN conjunct1, rule_format, OF c] t [THEN conjunct2, rule_format, OF d] e
    by blast
qed

text \<open>
  C7, as stated, fails at the prop name \<^verbatim>\<open>__proto__\<close>: for the option record \<open>o\<close> made by
  \<^verbatim>\<open>Object.create(null)\<close> with \<^verbatim>\<open>type: 'String'\<close>, the \<^verbatim>\<open>props\<close> object gets \<open>o\<close> as its
  prototype and no entry, and \<^verbatim>\<open>props['__proto__']\<close> is \<^verbatim>\<open>undefined\<close>, not \<open>o\<close>.
\<close>

theorem Prop_counterexample:
  "Prop (JObject Plain JNull [(KStr ''type'', JStr ''String'')]) no_options ''__proto__''
     = Inr (no_options\<lparr>props :=
              JObject Plain (JObject Plain JNull [(KStr ''type'', JStr ''String'')]) []\<rparr>)
   \<and> get_member (JObject Plain (JObject Plain JNull [(KStr ''type'', JStr ''String'')]) [])
        (KStr ''__proto__'') = JUndefined
   \<and> JUndefined \<noteq> JObject Plain JNull [(KStr ''type'', JStr ''String'')]"
  by (simp add: Prop_def default_param_def empty_object_def object_prototype_def no_options_def
      get_member_def)

subsection \<open>Inject\<close>

text \<open>
  C6, as the code has it. Let \<open>k\<close> be a member key other than \<^verbatim>\<open>__proto__\<close> and \<^verbatim>\<open>inject\<close>
  absent or a mapping. Then \<^verbatim>\<open>Inject()\<close> on \<open>k\<close> succeeds, changes no other field and leaves
  \<^verbatim>\<open>inject[k]\<close> equal to \<open>k\<close>, and \<^verbatim>\<open>Inject({from: f, default: d})\<close> leaves \<^verbatim>\<open>inject[k]\<close> equal
  to that record. On the member \<^verbatim>\<open>__proto__\<close> with \<^verbatim>\<open>inject\<close> absent, \<^verbatim>\<open>Inject()\<close> creates the
  empty mapping and the assignment of the key adds nothing to it. When \<^verbatim>\<open>inject\<close> is an
  array, \<^verbatim>\<open>Inject\<close> with any argument on any member returns the options unchanged.
\<close>

theorem Inject_registers:
  "(k \<noteq> ''__proto__'' \<and> (inject co = JUndefined \<or> is_mapping (inject co)) \<longrightarrow>
      (\<exists>c. Inject JUndefined co k = Inr c \<and> get_member (inject c) (KStr k) = JStr k
            \<and> c\<lparr>inject := inject co\<rparr> = co)
    \<and> (\<exists>c. Inject (object_literal [(''from'', f), (''default'', d)]) co k = Inr c
           \<and> get_member (inject c) (KStr k) = object_literal [(''from'', f), (''default'', d)]
           \<and> c\<lparr>inject := inject co\<rparr> = co))
   \<and> (inject co = JUndefined \<longrightarrow>
        Inject JUndefined co ''__proto__'' = Inr (co\<lparr>inject := empty_object\<rparr>))
   \<and> (isArray (inject co) \<longrightarrow> Inject options co k = Inr co)"
proof (intro conjI impI)
  assume a: "k \<noteq> ''__proto__'' \<and> (inject co = JUndefined \<or> is_mapping (inject co))"
  then have kk: "KStr k \<noteq> KStr ''__proto__''" by simp
  define co1 where "co1 = (if typeof (inject co) = ''undefined''
             then co\<lparr>inject := empty_object\<rparr> else co)"
  have "\<exists>proto ps. inject co1 = JObject Plain proto ps \<and> co1\<lparr>inject := inject co\<rparr> = co"
  proof (cases "inject co = JUndefined")
    case True
    then show ?thesis by (simp add: co1_def empty_object_def)
  next
    case False
    with a obtain proto ps where "inject co = JObject Plain proto ps"
      using is_mapping_cases by blast
    then show ?thesis by (simp add: co1_def)
  qed
  then obtain proto ps where p: "inject co1 = JObject Plain proto ps"
    and q: "co1\<lparr>inject := inject co\<rparr> = co"
    by blast
  have I: "Inject v co k
             = Inr (co1\<lparr>inject := JObject Plain proto (AList.update (KStr k) (js_or v (JStr k)) ps)\<rparr>)"
    for v
    using p
    by (simp add: Inject_def co1_def [symmetric] Let_def set_prop_ordinary_key [OF kk]
        del: set_prop.simps)
  have R: "(co1\<lparr>inject := x\<rparr>)\<lparr>inject := inject co\<rparr> = co" for x
    using q by (metis component_options.update_convs(2) component_options.surjective
        component_options.select_convs(2))
  show "\<exists>c. Inject JUndefined co k = Inr c \<and> get_member (inject c) (KStr k) = JStr k
            \<and> c\<lparr>inject := inject co\<rparr> = co"
    using I [of JUndefined] R by (simp add: js_or_def get_member_update)
  show "\<exists>c. Inject (object_literal [(''from'', f), (''default'', d)]) co k = Inr c
           \<and> get_member (inject c) (KStr k) = object_literal [(''from'', f), (''default'', d)]
           \<and> c\<lparr>inject := inject co\<rparr> = co"
    using I [of "object_literal [(''from'', f), (''default'', d)]"] R
    by (simp add: js_or_def get_member_update object_literal_def)
next
  assume "inject co = JUndefined"
  then show "Inject JUndefined co ''__proto__'' = Inr (co\<lparr>inject := empty_object\<rparr>)"
    by (simp add: Inject_def empty_object_def object_prototype_def js_or_def)
next
  assume a: "isArray (inject co)"
  then have "typeof (inject co) \<noteq> ''undefined''"
    by (cases "inject co" rule: isArray.cases) auto
  then show "Inject options co k = Inr co"
    using a by (simp add: Inject_def)
qed

theorem Inject_registers_witness:
  "inject no_options = JUndefined
   \<and> (\<exists>c. Inject JUndefined no_options ''service'' = Inr c
          \<and> get_member (inject c) (KStr ''service'') = JStr ''service'')
   \<and> (\<exists>c. Inject (object_literal [(''from'', JStr ''api''), (''default'', JNull)])
              no_options ''service'' = Inr c
          \<and> get_member (inject c) (KStr ''service'')
              = object_literal [(''from'', JStr ''api''), (''default'', JNull)])
   \<and> isArray (inject (no_options\<lparr>inject := array_literal [JStr ''api'']\<rparr>))
   \<and> Inject (JStr ''api'') (no_options\<lparr>inject := array_literal [JStr ''api'']\<rparr>) ''service''
       = Inr (no_options\<lparr>inject := array_literal [JStr ''api'']\<rparr>)"
proof -
  have a: "''service'' \<noteq> ''__proto__''
           \<and> (inject no_options = JUndefined \<or> is_mapping (inject no_options))"
    by (simp add: no_options_def)
  have b: "isArray (inject (no_options\<lparr>inject := array_literal [JStr ''api'']\<rparr>))"
    by (simp add: array_literal_def)
  note t = Inject_registers [of "''service''" no_options "JStr ''api''" JNull JUndefined]
  note u = Inject_registers [of "''service''" "no_options\<lparr>inject := array_literal [JStr ''api'']\<rparr>"
      JUndefined JUndefined "JStr ''api''"]
  show ?thesis
    using t [THEN conjunct1, rule_format, OF a]
      u [THEN conjunct2, THEN conjunct2, rule_format, OF b] b
    by (auto simp: no_options_def)
qed

text \<open>
  C6, as stated, fails at the member key \<^verbatim>\<open>__proto__\<close>: with \<^verbatim>\<open>inject\<close> absent, \<^verbatim>\<open>Inject()\<close>
  leaves the empty mapping, and \<^verbatim>\<open>inject['__proto__']\<close> reads \<^verbatim>\<open>Object.prototype\<close>, not the
  key.
\<close>

theorem Inject_counterexample:
  "Inject JUndefined no_options ''__proto__'' = Inr (no_options\<lparr>inject := empty_object\<rparr>)
   \<and> get_member (inject (no_options\<lparr>inject := empty_object\<rparr>)) (KStr ''__proto__'')
       = object_prototype
   \<and> object_prototype \<noteq> JStr ''__proto__''"
  by (simp add: Inject_def no_options_def empty_object_def object_prototype_def js_or_def
      get_member_def)

subsection \<open>Watch\<close>

lemma typeof_object_cases:
  "typeof v = ''object'' \<Longrightarrow> v = JNull \<or> (\<exists>k proto ps. v = JObject k proto ps)"
  by (cases v rule: typeof.cases) auto









text \<open>
  C10. When \<^verbatim>\<open>watch\<close> is an object whose entry for the path \<open>p\<close> is a function \<open>f\<close> (a
  handler function, which has no callable \<^verbatim>\<open>push\<close> member), \<^verbatim>\<open>Watch(p, options)\<close> takes
  neither the branch that wraps the entry in an array nor the one that starts an empty
  array, \<^verbatim>\<open>f.push(...)\<close> raises a \<^verbatim>\<open>TypeError\<close>, and so does the registrar: no descriptor
  is added.
\<close>

theorem Watch_function_entry:
  assumes w: "typeof (watch co) = ''object''" and wn: "watch co \<noteq> JNull"
    and e: "get_member (watch co) (KStr p) = f"
    and f: "typeof f = ''function''"
    and np: "typeof (get_member f (KStr ''push'')) \<noteq> ''function''"
  shows "\<not> (typeof f = ''object'' \<and> \<not> isArray f) \<and> typeof f \<noteq> ''undefined''
       \<and> call_push h f x = Inl TypeError
       \<and> Watch h p options co handler = Inl TypeError"
proof -
  have fn: "f \<noteq> JUndefined" "f \<noteq> JNull" using f by auto
  have cp: "call_push h f x = Inl TypeError" for x
    using fn np by (simp add: call_push_def Let_def)
  have gw: "get_prop (watch co) (KStr p) = Inr f"
    using w wn e by (auto simp: get_prop_def)
  have W: "Watch h p options co handler = Inl TypeError"
  proof (cases "default_param options empty_object = JNull")
    case True
    then show ?thesis by (simp add: Watch_def Let_def get_prop_def)
  next
    case False
    then have g: "get_prop (default_param options empty_object) key
             = Inr (get_member (default_param options empty_object) key)" for key
      by (simp add: get_prop_def default_param_def empty_object_def)
    show ?thesis using f
      by (simp add: Watch_def Let_def g w gw e cp)
  qed
  show ?thesis using f cp W by simp
qed

theorem Watch_function_entry_witness:
  "typeof (watch (no_options\<lparr>watch :=
       object_literal [(''value'', JObject (Function (UserFn 0)) JNull [])]\<rparr>)) = ''object''
   \<and> typeof (JObject (Function (UserFn 0)) JNull []) = ''function''
   \<and> typeof (get_member (JObject (Function (UserFn 0)) JNull []) (KStr ''push'')) \<noteq> ''function''
   \<and> Watch (const_host JUndefined) ''value'' JUndefined
        (no_options\<lparr>watch := object_literal [(''value'', JObject (Function (UserFn 0)) JNull [])]\<rparr>)
        ''onValue'' = Inl TypeError"
  using Watch_function_entry [where co = "no_options\<lparr>watch :=
        object_literal [(''value'', JObject (Function (UserFn 0)) JNull [])]\<rparr>"
      and p = "''value''" and f = "JObject (Function (UserFn 0)) JNull []"
      and h = "const_host JUndefined" and options = JUndefined and handler = "''onValue''"]
  by (simp add: no_options_def object_literal_def get_member_def)

subsection \<open>Provide\<close>






subsection \<open>The event name\<close>

lemma upper_is_word: "is_upper_AZ c \<Longrightarrow> is_word_char c"
  by (simp add: is_upper_AZ_def is_word_char_def)

lemma lower_char_hyphen: "lower_char CHR ''-'' = CHR ''-''"
  by (simp add: lower_char_def)

lemma lower_char_word: "is_word_char c \<Longrightarrow> \<not> is_upper_AZ c \<Longrightarrow> lower_char c = c"
  by (auto simp: is_word_char_def is_upper_AZ_def lower_char_def Let_def)

lemma replace_hyphenateRE_pairs:
  "replace_hyphenateRE (Some b) cs =
     concat (map (\<lambda>(before, d). if is_word_char before \<and> is_upper_AZ d then [CHR ''-'', d] else [d])
               (zip (b # cs) cs))"
proof (induction cs arbitrary: b)
  case Nil
  then show ?case by simp
next
  case (Cons c cs)
  have "(non_word_boundary (Some b) (Some c) \<and> is_upper_AZ c) = (is_word_char b \<and> is_upper_AZ c)"
    using upper_is_word [of c] by (auto simp: non_word_boundary_def)
  then show ?case using Cons.IH [of c] by simp
qed

lemma replace_hyphenateRE_start:
  "replace_hyphenateRE None (c # cs) = c # replace_hyphenateRE (Some c) cs"
  using upper_is_word [of c] by (auto simp: non_word_boundary_def)

lemma hyphenate_Cons:
  "hyphenate (c # cs) =
     lower_char c #
     concat (map (\<lambda>(before, d). if is_word_char before \<and> is_upper_AZ d
                                  then [CHR ''-'', lower_char d] else [lower_char d])
               (zip (c # cs) cs))"
proof -
  have "map lower_char (concat (map (\<lambda>(before, d). if is_word_char before \<and> is_upper_AZ d then [CHR ''-'', d] else [d]) ps))
        = concat (map (\<lambda>(before, d). if is_word_char before \<and> is_upper_AZ d
                                  then [CHR ''-'', lower_char d] else [lower_char d]) ps)" for ps
    by (induction ps) (auto simp: lower_char_hyphen)
  then show ?thesis
    by (simp add: hyphenate_def toLowerCase_def replace_hyphenateRE_start replace_hyphenateRE_pairs
        del: replace_hyphenateRE.simps)
qed

lemma pairs_spec:
  "\<forall>c\<in>set (b # cs). is_word_char c \<Longrightarrow>
   concat (map (\<lambda>(before, d). if is_word_char before \<and> is_upper_AZ d
                                  then [CHR ''-'', lower_char d] else [lower_char d])
               (zip (b # cs) cs))
   = concat (map (\<lambda>d. if is_upper_AZ d then [CHR ''-'', lower_char d] else [d]) cs)"
proof (induction cs arbitrary: b)
  case Nil
  then show ?case by simp
next
  case (Cons c cs)
  then show ?case using Cons.IH [of c] by (auto simp: lower_char_word)
qed

lemma hyphenate_spec:
  assumes "\<forall>c\<in>set key. is_word_char c" and "key \<noteq> [] \<longrightarrow> \<not> is_upper_AZ (hd key)"
  shows "hyphenate key = spec_hyphenate key"
proof (cases key)
  case Nil
  then show ?thesis by (simp add: hyphenate_def toLowerCase_def)
next
  case (Cons c cs)
  then show ?thesis using assms pairs_spec [of c cs]
    by (simp add: hyphenate_Cons lower_char_word)
qed

lemma hyphenate_hyphen_case: "hyphenate key = hyphen_case key"
  by (cases key) (simp_all add: hyphenate_Cons, simp add: hyphenate_def toLowerCase_def)

lemma hyphen_case_spec:
  assumes "\<forall>c\<in>set key. is_word_char c" and "key \<noteq> [] \<longrightarrow> \<not> is_upper_AZ (hd key)"
  shows "hyphen_case key = spec_hyphenate key"
  using hyphenate_spec [OF assms] by (simp add: hyphenate_hyphen_case)

lemma outside_function_typeof:
  "outside_function v \<Longrightarrow> typeof v = ''function''"
  by (cases v rule: outside_function.cases) simp_all

lemma invoke_Emit:
  assumes "function_of (get_member (descriptor_value d) (KStr ''apply'')) = Some FunctionApply"
  shows "invoke h (descriptor_value (Emit event key d)) this args
     = (if typeof (descriptor_value d) \<noteq> ''function'' then finished (Inl TypeError) this
        else emitter h event (hyphenate key) (descriptor_value d)
               (invoke h (descriptor_value d) this args) args)"
  using assms by (simp add: Emit_def Let_def function_object_def)

lemma invoke_returns_function:
  assumes "outcome (invoke h f this args) = Inr v"
  shows "typeof f = ''function''"
proof (rule ccontr)
  assume n: "typeof f \<noteq> ''function''"
  have "invoke h f this args = finished (Inl TypeError) this"
    using n by (cases "(h, f, this, args)" rule: invoke.cases) simp_all
  then show False
    using assms by (simp add: finished_def)
qed

lemma call_Emit:
  assumes "function_of (get_member (descriptor_value d) (KStr ''apply'')) = Some FunctionApply"
    and "invoke h (descriptor_value d) this args
             = \<lparr>outcome = Inr v, this_after = this1, emitted = es, then_calls = ts\<rparr>"
  shows "call_method h (Emit event key d) this args
           = emitter h event (hyphenate key) (descriptor_value d)
               \<lparr>outcome = Inr v, this_after = this1, emitted = es, then_calls = ts\<rparr> args"
proof -
  have "outcome (invoke h (descriptor_value d) this args) = Inr v"
    using assms(2) by simp
  then have "typeof (descriptor_value d) = ''function''"
    by (rule invoke_returns_function)
  then show ?thesis
    using assms(2) by (simp add: call_method_def invoke_Emit [OF assms(1)])
qed

lemma emit_callable:
  assumes "typeof (get_member this1 (KStr ''$emit'')) = ''function''"
  shows "emit h event key this1 args v
     = \<lparr>outcome = (case fst (call_function h (get_member this1 (KStr ''$emit'')) this1
                               (js_or event (JStr key) # unshift v args)) of
                     Inl e \<Rightarrow> Inl e | Inr x \<Rightarrow> Inr JUndefined),
        this_after = snd (call_function h (get_member this1 (KStr ''$emit'')) this1
                         (js_or event (JStr key) # unshift v args)),
        emitted = [(js_or event (JStr key), unshift v args)],
        then_calls = []\<rparr>"
proof -
  have "this1 \<noteq> JUndefined" "this1 \<noteq> JNull"
    using assms by (auto simp: get_member_def)
  then show ?thesis
    using assms by (simp add: emit_def Let_def split: prod.split)
qed

lemma emitter_deferred:
  assumes "isPromise v" and "typeof (get_member v (KStr ''then'')) = ''function''"
  shows "\<exists>r. emitter h event key original
           \<lparr>outcome = Inr v, this_after = this1, emitted = es, then_calls = ts\<rparr> args
         = \<lparr>outcome = r, this_after = this1, emitted = es,
            then_calls = ts @ [(v, [emit_callback event key args])]\<rparr>"
  using assms
  by (auto simp: emitter_def Let_def emit_callback_def split: sum.splits)

lemma emitter_thenable:
  assumes "isPromise v" and "outside_function (get_member v (KStr ''then''))"
    and "function_of (get_member v (KStr ''then'')) \<noteq> Some PromiseThen"
    and "fst (call_function h (get_member v (KStr ''then'')) v [emit_callback event key args])
           = Inr r"
  shows "emitter h event key original
           \<lparr>outcome = Inr v, this_after = this1, emitted = es, then_calls = ts\<rparr> args
         = \<lparr>outcome = Inr JUndefined, this_after = this1, emitted = es,
            then_calls = ts @ [(v, [emit_callback event key args])]\<rparr>"
proof -
  have "typeof (get_member v (KStr ''then'')) = ''function''"
    using assms(2) by (rule outside_function_typeof)
  then show ?thesis
    using assms by (simp add: emitter_def Let_def emit_callback_def)
qed

lemma emitter_native:
  assumes "is_native_promise v" and "function_of (get_member v (KStr ''then'')) = Some PromiseThen"
  shows "isPromise v"
    and "emitter h event key original
           \<lparr>outcome = Inr v, this_after = this1, emitted = es, then_calls = ts\<rparr> args
         = \<lparr>outcome = Inr JUndefined, this_after = this1, emitted = es,
            then_calls = ts @ [(v, [emit_callback event key args])]\<rparr>"
proof -
  have t: "typeof (get_member v (KStr ''then'')) = ''function''"
    using assms(2) by (cases "get_member v (KStr ''then'')" rule: function_of.cases) simp_all
  show p: "isPromise v"
    using assms(1) t by (cases v rule: is_native_promise.cases) (simp_all add: isPromise_def)
  show "emitter h event key original
           \<lparr>outcome = Inr v, this_after = this1, emitted = es, then_calls = ts\<rparr> args
         = \<lparr>outcome = Inr JUndefined, this_after = this1, emitted = es,
            then_calls = ts @ [(v, [emit_callback event key args])]\<rparr>"
    using assms p t by (simp add: emitter_def Let_def emit_callback_def)
qed

lemma run_emit_callback:
  "run_callback h (emit_callback event key args) inst s
     = (emit h event key inst args s, emit_callback event key (unshift s args))"
  by (simp add: run_callback_def emit_callback_def function_object_def)

text \<open>
  C3, as the code has it. \<^verbatim>\<open>Emit(event)\<close> on a method named \<open>key\<close> installs a wrapper that
  holds the default event name: \<open>key\<close> with every character lower-cased, the first one
  included, and a hyphen put before each upper-case letter \<^verbatim>\<open>A\<close> to \<^verbatim>\<open>Z\<close> that directly
  follows a word character (a letter, a digit or \<^verbatim>\<open>_\<close>); the first character never gets a
  hyphen. For a name made of word characters only that does not start with an upper-case
  letter this is the conversion the specification describes. The wrapper emits under the
  given event name when that is truthy (a non-empty string) and under the default name
  otherwise, both when the method returns a value that is not promise-like and in the
  callback it passes to \<^verbatim>\<open>then\<close> when the method returns a promise-like value. Here the
  method is called through the built-in \<^verbatim>\<open>apply\<close>, and \<^verbatim>\<open>$emit\<close> and \<^verbatim>\<open>then\<close> are functions
  written outside this file.
\<close>

theorem Emit_event_name:
  assumes m: "function_of (get_member (descriptor_value d) (KStr ''apply'')) = Some FunctionApply"
    and a: "invoke h (descriptor_value d) this args
              = \<lparr>outcome = Inr v, this_after = this1, emitted = es, then_calls = ts\<rparr>"
  shows "descriptor_value (Emit event key d)
           = function_object (EmitterFn event (hyphen_case key) (descriptor_value d))
     \<and> (\<not> isPromise v \<and> outside_function (get_member this1 (KStr ''$emit'')) \<longrightarrow>
          map fst (emitted (call_method h (Emit event key d) this args))
            = map fst es @ [if truthy event then event else JStr (hyphen_case key)])
     \<and> (isPromise v \<and> outside_function (get_member v (KStr ''then'')) \<longrightarrow>
          then_calls (call_method h (Emit event key d) this args)
            = ts @ [(v, [emit_callback event (hyphen_case key) args])]
        \<and> (\<forall>inst s. outside_function (get_member inst (KStr ''$emit'')) \<longrightarrow>
              map fst (emitted (on_settled h [emit_callback event (hyphen_case key) args] inst
                                  (Fulfilled s)))
                = [if truthy event then event else JStr (hyphen_case key)]))
     \<and> ((\<forall>x\<in>set key. is_word_char x) \<and> (key \<noteq> [] \<longrightarrow> \<not> is_upper_AZ (hd key)) \<longrightarrow>
          hyphen_case key = spec_hyphenate key)"
proof (intro conjI impI allI)
  let ?call = "call_method h (Emit event key d) this args"
  have c: "?call = emitter h event (hyphenate key) (descriptor_value d)
               \<lparr>outcome = Inr v, this_after = this1, emitted = es, then_calls = ts\<rparr> args"
    by (rule call_Emit [OF m a])
  show "descriptor_value (Emit event key d)
           = function_object (EmitterFn event (hyphen_case key) (descriptor_value d))"
    by (simp add: Emit_def Let_def hyphenate_hyphen_case)
  show "map fst (emitted ?call)
            = map fst es @ [if truthy event then event else JStr (hyphen_case key)]"
    if "\<not> isPromise v \<and> outside_function (get_member this1 (KStr ''$emit''))"
  proof -
    have "typeof (get_member this1 (KStr ''$emit'')) = ''function''"
      using that outside_function_typeof by blast
    then show ?thesis
      unfolding c using that
      by (simp add: emitter_def emit_callable Let_def js_or_def hyphenate_hyphen_case)
  qed
  show "then_calls ?call = ts @ [(v, [emit_callback event (hyphen_case key) args])]"
    if "isPromise v \<and> outside_function (get_member v (KStr ''then''))"
  proof -
    have "typeof (get_member v (KStr ''then'')) = ''function''"
      using that outside_function_typeof by blast
    then show ?thesis
      using emitter_deferred [of v h event "hyphenate key" "descriptor_value d" this1 es ts args]
        that
      unfolding c by (auto simp: hyphenate_hyphen_case)
  qed
next
  fix inst s
  assume "outside_function (get_member inst (KStr ''$emit''))"
  then have "typeof (get_member inst (KStr ''$emit'')) = ''function''"
    by (rule outside_function_typeof)
  then show "map fst (emitted (on_settled h [emit_callback event (hyphen_case key) args] inst
                                  (Fulfilled s)))
                = [if truthy event then event else JStr (hyphen_case key)]"
    by (simp add: run_emit_callback emit_callable js_or_def)
next
  assume "(\<forall>x\<in>set key. is_word_char x) \<and> (key \<noteq> [] \<longrightarrow> \<not> is_upper_AZ (hd key))"
  then show "hyphen_case key = spec_hyphenate key"
    using hyphen_case_spec by blast
qed

theorem Emit_event_name_witness:
  "map fst (emitted (call_method (const_host (JNum 5))
        (Emit JUndefined ''doThing'' \<lparr>descriptor_value = function_object (UserFn 0)\<rparr>)
        component [JNum 1, JNum 2])) = [JStr ''do-thing'']
   \<and> map fst (emitted (call_method (const_host (JNum 5))
        (Emit (JStr ''done'') ''doThing'' \<lparr>descriptor_value = function_object (UserFn 0)\<rparr>)
        component [JNum 1, JNum 2])) = [JStr ''done'']
   \<and> hyphen_case ''doThing'' = spec_hyphenate ''doThing''"
proof -
  let ?d = "\<lparr>descriptor_value = function_object (UserFn 0)\<rparr>"
  have m: "function_of (get_member (descriptor_value ?d) (KStr ''apply'')) = Some FunctionApply"
    by (simp add: function_object_def function_prototype_def get_member_def)
  have a: "invoke (const_host (JNum 5)) (descriptor_value ?d) component [JNum 1, JNum 2]
            = \<lparr>outcome = Inr (JNum 5), this_after = component, emitted = [], then_calls = []\<rparr>"
    by (simp add: function_object_def host_call_def const_host_def finished_def)
  have c: "\<not> isPromise (JNum 5) \<and> outside_function (get_member component (KStr ''$emit''))"
    by (simp add: isPromise_def instanceof_Promise_def get_member_def component_def
        object_literal_def function_object_def)
  have w: "(\<forall>x\<in>set ''doThing''. is_word_char x)
           \<and> (''doThing'' \<noteq> [] \<longrightarrow> \<not> is_upper_AZ (hd ''doThing''))"
    by (simp add: is_word_char_def is_upper_AZ_def)
  have k: "hyphen_case ''doThing'' = ''do-thing''"
    by code_simp
  note t1 = Emit_event_name [OF m a, of JUndefined "''doThing''"]
  note t2 = Emit_event_name [OF m a, of "JStr ''done''" "''doThing''"]
  have 1: "map fst (emitted (call_method (const_host (JNum 5)) (Emit JUndefined ''doThing'' ?d)
              component [JNum 1, JNum 2])) = [JStr (hyphen_case ''doThing'')]"
    using t1 c by simp
  have 2: "map fst (emitted (call_method (const_host (JNum 5)) (Emit (JStr ''done'') ''doThing'' ?d)
              component [JNum 1, JNum 2])) = [JStr ''done'']"
    using t2 c by simp
  have 3: "hyphen_case ''doThing'' = spec_hyphenate ''doThing''"
    using t1 w by blast
  show ?thesis
    using 1 2 3 unfolding k by simp
qed

text \<open>
  C3, as stated, fails: the first character of \<^verbatim>\<open>DoThing\<close> is lower-cased, and the
  upper-case letter inside \<^verbatim>\<open>on$Click\<close> follows \<^verbatim>\<open>$\<close>, which is not a word character, and
  gets no hyphen.
\<close>

theorem hyphenate_counterexample:
  "hyphenate ''DoThing'' = ''do-thing'' \<and> spec_hyphenate ''DoThing'' = ''Do-thing''
   \<and> hyphenate ''on$Click'' = ''on$click'' \<and> spec_hyphenate ''on$Click'' = ''on$-click''"
  by code_simp

subsection \<open>The wrapper of \<^verbatim>\<open>Emit\<close>\<close>

lemma emit_returns:
  assumes "outcome (emit h event key this1 args v) = Inr x"
  shows "x = JUndefined"
  using assms
  by (auto simp: emit_def Let_def finished_def split: if_splits prod.splits sum.splits)

lemma emit_not_callable:
  assumes "typeof (get_member this1 (KStr ''$emit'')) \<noteq> ''function''"
  shows "emit h event key this1 args v = finished (Inl TypeError) this1"
  using assms by (simp add: emit_def Let_def)

text \<open>
  C1. A method \<open>key\<close> wrapped by \<^verbatim>\<open>Emit()\<close> is called on \<open>this\<close> with \<open>args\<close>; the original
  method, called through the built-in \<^verbatim>\<open>apply\<close>, returns \<open>v\<close>, which is not promise-like, and
  leaves the instance in the state \<open>this1\<close>. When \<^verbatim>\<open>$emit\<close> of the instance is then a function
  written outside this file, the wrapper calls it on the instance, before it returns,
  with the hyphenated method name followed by \<open>v\<close> and \<open>args\<close>, or by \<open>args\<close> alone when \<open>v\<close>
  is \<^verbatim>\<open>undefined\<close>. This is the one call of \<^verbatim>\<open>$emit\<close> the wrapper adds to those the wrappers
  below it made while the original method ran; the wrapper ends as the call of \<^verbatim>\<open>$emit\<close>
  does, returning \<^verbatim>\<open>undefined\<close> when that returns, and leaves the instance as that call
  left it. When the instance has no function \<^verbatim>\<open>$emit\<close>, the wrapper raises a \<^verbatim>\<open>TypeError\<close> and
  emits nothing.
\<close>

theorem Emit_immediate:
  assumes m: "function_of (get_member (descriptor_value d) (KStr ''apply'')) = Some FunctionApply"
    and a: "invoke h (descriptor_value d) this args
                = \<lparr>outcome = Inr v, this_after = this1, emitted = es, then_calls = ts\<rparr>"
    and i: "\<not> isPromise v"
  shows "(\<forall>r this2.
            outside_function (get_member this1 (KStr ''$emit''))
            \<and> call_function h (get_member this1 (KStr ''$emit'')) this1
                 (JStr (hyphenate key) # (if v = JUndefined then args else v # args)) = (r, this2)
            \<longrightarrow> call_method h (Emit JUndefined key d) this args
                  = \<lparr>outcome = (case r of Inl err \<Rightarrow> Inl err | Inr x \<Rightarrow> Inr JUndefined),
                     this_after = this2,
                     emitted = es @ [(JStr (hyphenate key),
                                      if v = JUndefined then args else v # args)],
                     then_calls = ts\<rparr>)
       \<and> (typeof (get_member this1 (KStr ''$emit'')) \<noteq> ''function'' \<longrightarrow>
            call_method h (Emit JUndefined key d) this args
              = \<lparr>outcome = Inl TypeError, this_after = this1, emitted = es, then_calls = ts\<rparr>)"
proof (intro conjI allI impI)
  have u: "unshift v args = (if v = JUndefined then args else v # args)"
    by (simp add: unshift_def)
  have n: "js_or JUndefined (JStr (hyphenate key)) = JStr (hyphenate key)"
    by (simp add: js_or_def)
  fix r this2
  assume c: "outside_function (get_member this1 (KStr ''$emit''))
            \<and> call_function h (get_member this1 (KStr ''$emit'')) this1
                 (JStr (hyphenate key) # (if v = JUndefined then args else v # args)) = (r, this2)"
  then have t: "typeof (get_member this1 (KStr ''$emit'')) = ''function''"
    using outside_function_typeof by blast
  show "call_method h (Emit JUndefined key d) this args
                  = \<lparr>outcome = (case r of Inl err \<Rightarrow> Inl err | Inr x \<Rightarrow> Inr JUndefined),
                     this_after = this2,
                     emitted = es @ [(JStr (hyphenate key),
                                      if v = JUndefined then args else v # args)],
                     then_calls = ts\<rparr>"
    unfolding call_Emit [OF m a]
    using i c by (simp add: emitter_def emit_callable [OF t] Let_def u n)
next
  assume "typeof (get_member this1 (KStr ''$emit'')) \<noteq> ''function''"
  then show "call_method h (Emit JUndefined key d) this args
              = \<lparr>outcome = Inl TypeError, this_after = this1, emitted = es, then_calls = ts\<rparr>"
    unfolding call_Emit [OF m a]
    using i by (simp add: emitter_def emit_not_callable Let_def finished_def)
qed

theorem Emit_immediate_witness:
  "call_method (const_host (JNum 5))
       (Emit JUndefined ''doThing'' \<lparr>descriptor_value = function_object (UserFn 0)\<rparr>)
       component [JNum 1, JNum 2]
     = \<lparr>outcome = Inr JUndefined, this_after = component,
        emitted = [(JStr ''do-thing'', [JNum 5, JNum 1, JNum 2])], then_calls = []\<rparr>
   \<and> call_method (const_host JUndefined)
       (Emit JUndefined ''doThing'' \<lparr>descriptor_value = function_object (UserFn 0)\<rparr>)
       component [JNum 1, JNum 2]
     = \<lparr>outcome = Inr JUndefined, this_after = component,
        emitted = [(JStr ''do-thing'', [JNum 1, JNum 2])], then_calls = []\<rparr>
   \<and> call_method (const_host (JNum 5))
       (Emit JUndefined ''doThing''
          (Emit (JStr ''inner'') ''doThing'' \<lparr>descriptor_value = function_object (UserFn 0)\<rparr>))
       component [JNum 1, JNum 2]
     = \<lparr>outcome = Inr JUndefined, this_after = component,
        emitted = [(JStr ''inner'', [JNum 5, JNum 1, JNum 2]),
                   (JStr ''do-thing'', [JNum 1, JNum 2])],
        then_calls = []\<rparr>
   \<and> call_method (const_host (JNum 5))
       (Emit JUndefined ''doThing'' \<lparr>descriptor_value = function_object (UserFn 0)\<rparr>)
       empty_object [JNum 1, JNum 2]
     = \<lparr>outcome = Inl TypeError, this_after = empty_object, emitted = [], then_calls = []\<rparr>"
proof -
  let ?d = "\<lparr>descriptor_value = function_object (UserFn 0)\<rparr>"
  let ?args = "[JNum 1, JNum 2]"
  have k: "hyphenate ''doThing'' = ''do-thing''"
    by code_simp
  have m: "function_of (get_member (descriptor_value ?d) (KStr ''apply'')) = Some FunctionApply"
    by (simp add: function_object_def function_prototype_def get_member_def)
  have m2: "function_of (get_member (descriptor_value (Emit (JStr ''inner'') ''doThing'' ?d))
              (KStr ''apply'')) = Some FunctionApply"
    by (simp add: Emit_def Let_def function_object_def function_prototype_def get_member_def)
  have e: "outside_function (get_member component (KStr ''$emit''))"
    by (simp add: get_member_def component_def object_literal_def function_object_def)
  have ne: "typeof (get_member empty_object (KStr ''$emit'')) \<noteq> ''function''"
    by (simp add: get_member_def empty_object_def object_prototype_def
        object_prototype_methods_def)
  have a: "invoke (const_host x) (descriptor_value ?d) inst ?args
            = \<lparr>outcome = Inr x, this_after = inst, emitted = [], then_calls = []\<rparr>" for x inst
    by (simp add: function_object_def host_call_def const_host_def finished_def)
  have i5: "\<not> isPromise (JNum 5)"
    by (simp add: isPromise_def instanceof_Promise_def get_member_def)
  have iu: "\<not> isPromise JUndefined"
    by (simp add: isPromise_def instanceof_Promise_def)
  have c: "outside_function (get_member component (KStr ''$emit''))
           \<and> call_function (const_host x) (get_member component (KStr ''$emit'')) component
             (JStr (hyphenate ''doThing'') # (if y = JUndefined then ?args else y # ?args))
            = (Inr x, component)" for x y
    using e by (simp add: const_host_def)
  have 1: "call_method (const_host (JNum 5)) (Emit JUndefined ''doThing'' ?d) component ?args
     = \<lparr>outcome = Inr JUndefined, this_after = component,
        emitted = [(JStr ''do-thing'', [JNum 5, JNum 1, JNum 2])], then_calls = []\<rparr>"
    using Emit_immediate [OF m a i5, THEN conjunct1, rule_format, OF c] by (simp add: k)
  have 2: "call_method (const_host JUndefined) (Emit JUndefined ''doThing'' ?d) component ?args
     = \<lparr>outcome = Inr JUndefined, this_after = component,
        emitted = [(JStr ''do-thing'', [JNum 1, JNum 2])], then_calls = []\<rparr>"
    using Emit_immediate [OF m a iu, THEN conjunct1, rule_format, OF c] by (simp add: k)
  have ce: "call_function (const_host (JNum 5)) (get_member component (KStr ''$emit'')) component
             (js_or (JStr ''inner'') (JStr (hyphenate ''doThing'')) # unshift (JNum 5) ?args)
            = (Inr (JNum 5), component)"
    by (simp add: const_host_def)
  have t: "typeof (get_member component (KStr ''$emit'')) = ''function''"
    using e by (rule outside_function_typeof)
  have inner: "invoke (const_host (JNum 5))
                 (descriptor_value (Emit (JStr ''inner'') ''doThing'' ?d)) component ?args
            = \<lparr>outcome = Inr JUndefined, this_after = component,
               emitted = [(JStr ''inner'', [JNum 5, JNum 1, JNum 2])], then_calls = []\<rparr>"
    using call_Emit [OF m a [of "JNum 5" component], where event = "JStr ''inner''"
        and key = "''doThing''"] i5 ce
    by (simp add: call_method_def emitter_def Let_def emit_callable [OF t] js_or_def unshift_def)
  have 3: "call_method (const_host (JNum 5))
       (Emit JUndefined ''doThing'' (Emit (JStr ''inner'') ''doThing'' ?d)) component ?args
     = \<lparr>outcome = Inr JUndefined, this_after = component,
        emitted = [(JStr ''inner'', [JNum 5, JNum 1, JNum 2]),
                   (JStr ''do-thing'', [JNum 1, JNum 2])],
        then_calls = []\<rparr>"
    using Emit_immediate [OF m2 inner iu, THEN conjunct1, rule_format, OF c] by (simp add: k)
  have 4: "call_method (const_host (JNum 5)) (Emit JUndefined ''doThing'' ?d) empty_object ?args
     = \<lparr>outcome = Inl TypeError, this_after = empty_object, emitted = [], then_calls = []\<rparr>"
    using Emit_immediate [OF m a i5, THEN conjunct2, rule_format, OF ne] by simp
  show ?thesis
    using 1 2 3 4 by simp
qed

text \<open>
  C2. A method wrapped by \<^verbatim>\<open>Emit\<close> is called with \<open>args\<close> and the original method, called
  through the built-in \<^verbatim>\<open>apply\<close>, returns a promise-like value \<open>v\<close>. When \<^verbatim>\<open>v.then\<close> is a
  function written outside this file or the built-in one, the wrapper calls it once, on
  \<open>v\<close>, with one argument, a callback, and itself adds no call of \<^verbatim>\<open>$emit\<close> to those made
  while the original method ran. When \<^verbatim>\<open>v.then\<close> is not a function (an object that
  inherits from \<^verbatim>\<open>Promise.prototype\<close> and hides \<^verbatim>\<open>then\<close>) the wrapper raises a \<^verbatim>\<open>TypeError\<close> and
  nothing is emitted. The emission is what the callback does, whenever it is called:
  called at fulfilment with the value \<open>s\<close>, while the instance is in a state \<open>inst\<close> whose
  \<^verbatim>\<open>$emit\<close> is a function written outside this file, it calls \<^verbatim>\<open>$emit\<close> once, with the event
  name followed by \<open>s\<close> and \<open>args\<close> (by \<open>args\<close> alone when \<open>s\<close> is \<^verbatim>\<open>undefined\<close>), and \<open>s\<close> stays
  at the front of the \<open>args\<close> it holds; on an instance without a function \<^verbatim>\<open>$emit\<close> it raises
  a \<^verbatim>\<open>TypeError\<close> and emits nothing. A rejection finds no function to call: nothing is
  emitted, the instance is left as it is, and the rejection passes on unhandled to the
  promise \<^verbatim>\<open>then\<close> returned.
\<close>

theorem Emit_deferred:
  assumes m: "function_of (get_member (descriptor_value d) (KStr ''apply'')) = Some FunctionApply"
    and a: "invoke h (descriptor_value d) this args
                = \<lparr>outcome = Inr v, this_after = this1, emitted = es, then_calls = ts\<rparr>"
    and p: "isPromise v"
  shows "(outside_function (get_member v (KStr ''then'')) \<longrightarrow>
          emitted (call_method h (Emit event key d) this args) = es
        \<and> then_calls (call_method h (Emit event key d) this args)
            = ts @ [(v, [emit_callback event (hyphenate key) args])])
     \<and> (typeof (get_member v (KStr ''then'')) \<noteq> ''function'' \<longrightarrow>
          call_method h (Emit event key d) this args
            = \<lparr>outcome = Inl TypeError, this_after = this1, emitted = es, then_calls = ts\<rparr>)
     \<and> (\<forall>inst s r inst2.
          outside_function (get_member inst (KStr ''$emit''))
          \<and> call_function h (get_member inst (KStr ''$emit'')) inst
              (js_or event (JStr (hyphenate key)) # unshift s args) = (r, inst2)
          \<longrightarrow> on_settled h [emit_callback event (hyphenate key) args] inst (Fulfilled s)
                = \<lparr>outcome = (case r of Inl err \<Rightarrow> Inl err | Inr x \<Rightarrow> Inr JUndefined),
                   this_after = inst2,
                   emitted = [(js_or event (JStr (hyphenate key)), unshift s args)],
                   then_calls = []\<rparr>)
     \<and> (\<forall>inst s. typeof (get_member inst (KStr ''$emit'')) \<noteq> ''function'' \<longrightarrow>
           on_settled h [emit_callback event (hyphenate key) args] inst (Fulfilled s)
             = finished (Inl TypeError) inst)
     \<and> (\<forall>inst s. snd (run_callback h (emit_callback event (hyphenate key) args) inst s)
                   = emit_callback event (hyphenate key) (unshift s args))
     \<and> (\<forall>inst e. on_settled h [emit_callback event (hyphenate key) args] inst (Rejected e)
                   = finished (Inr JUndefined) inst)
     \<and> \<not> handles_rejection [emit_callback event (hyphenate key) args]"
proof (intro conjI impI allI)
  let ?call = "call_method h (Emit event key d) this args"
  have c: "?call = emitter h event (hyphenate key) (descriptor_value d)
               \<lparr>outcome = Inr v, this_after = this1, emitted = es, then_calls = ts\<rparr> args"
    by (rule call_Emit [OF m a])
  have d: "\<exists>r. ?call = \<lparr>outcome = r, this_after = this1, emitted = es,
                        then_calls = ts @ [(v, [emit_callback event (hyphenate key) args])]\<rparr>"
    if "outside_function (get_member v (KStr ''then''))"
    unfolding c
    using emitter_deferred [OF p outside_function_typeof [OF that]] .
  show "emitted ?call = es" if "outside_function (get_member v (KStr ''then''))"
    using d [OF that] by auto
  show "then_calls ?call = ts @ [(v, [emit_callback event (hyphenate key) args])]"
    if "outside_function (get_member v (KStr ''then''))"
    using d [OF that] by auto
  show "?call = \<lparr>outcome = Inl TypeError, this_after = this1, emitted = es, then_calls = ts\<rparr>"
    if "typeof (get_member v (KStr ''then'')) \<noteq> ''function''"
    unfolding c using p that by (simp add: emitter_def Let_def)
next
  fix inst s r inst2
  assume h: "outside_function (get_member inst (KStr ''$emit''))
          \<and> call_function h (get_member inst (KStr ''$emit'')) inst
              (js_or event (JStr (hyphenate key)) # unshift s args) = (r, inst2)"
  then have "typeof (get_member inst (KStr ''$emit'')) = ''function''"
    using outside_function_typeof by blast
  then show "on_settled h [emit_callback event (hyphenate key) args] inst (Fulfilled s)
                = \<lparr>outcome = (case r of Inl err \<Rightarrow> Inl err | Inr x \<Rightarrow> Inr JUndefined),
                   this_after = inst2,
                   emitted = [(js_or event (JStr (hyphenate key)), unshift s args)],
                   then_calls = []\<rparr>"
    using h by (simp add: run_emit_callback emit_callable)
next
  fix inst s
  assume "typeof (get_member inst (KStr ''$emit'')) \<noteq> ''function''"
  then show "on_settled h [emit_callback event (hyphenate key) args] inst (Fulfilled s)
             = finished (Inl TypeError) inst"
    by (simp add: run_emit_callback emit_not_callable)
next
  fix inst s
  show "snd (run_callback h (emit_callback event (hyphenate key) args) inst s)
          = emit_callback event (hyphenate key) (unshift s args)"
    by (simp add: run_emit_callback)
next
  fix inst e
  show "on_settled h [emit_callback event (hyphenate key) args] inst (Rejected e)
          = finished (Inr JUndefined) inst"
    by simp
next
  show "\<not> handles_rejection [emit_callback event (hyphenate key) args]"
    by simp
qed

theorem Emit_deferred_witness:
  "call_method (const_host (JObject (Prom 0) promise_prototype []))
       (Emit JUndefined ''doThing'' \<lparr>descriptor_value = function_object (UserFn 0)\<rparr>)
       component [JNum 1]
     = \<lparr>outcome = Inr JUndefined, this_after = component, emitted = [],
        then_calls = [(JObject (Prom 0) promise_prototype [],
                       [emit_callback JUndefined ''do-thing'' [JNum 1]])]\<rparr>
   \<and> call_method (const_host (object_literal [(''then'', function_object (UserFn 2))]))
       (Emit JUndefined ''doThing'' \<lparr>descriptor_value = function_object (UserFn 0)\<rparr>)
       component [JNum 1]
     = \<lparr>outcome = Inr JUndefined, this_after = component, emitted = [],
        then_calls = [(object_literal [(''then'', function_object (UserFn 2))],
                       [emit_callback JUndefined ''do-thing'' [JNum 1]])]\<rparr>
   \<and> on_settled (const_host (JObject (Prom 0) promise_prototype []))
       [emit_callback JUndefined ''do-thing'' [JNum 1]] component (Fulfilled (JStr ''ok''))
     = \<lparr>outcome = Inr JUndefined, this_after = component,
        emitted = [(JStr ''do-thing'', [JStr ''ok'', JNum 1])], then_calls = []\<rparr>
   \<and> snd (run_callback (const_host (JObject (Prom 0) promise_prototype []))
            (emit_callback JUndefined ''do-thing'' [JNum 1]) component (JStr ''ok''))
     = emit_callback JUndefined ''do-thing'' [JStr ''ok'', JNum 1]
   \<and> on_settled (const_host (JObject (Prom 0) promise_prototype []))
       [emit_callback JUndefined ''do-thing'' [JNum 1]] component (Rejected (JStr ''no''))
     = \<lparr>outcome = Inr JUndefined, this_after = component, emitted = [], then_calls = []\<rparr>"
proof -
  let ?d = "\<lparr>descriptor_value = function_object (UserFn 0)\<rparr>"
  let ?p = "JObject (Prom 0) promise_prototype []"
  let ?q = "object_literal [(''then'', function_object (UserFn 2))]"
  have k: "hyphenate ''doThing'' = ''do-thing''"
    by code_simp
  have m: "function_of (get_member (descriptor_value ?d) (KStr ''apply'')) = Some FunctionApply"
    by (simp add: function_object_def function_prototype_def get_member_def)
  have e: "outside_function (get_member component (KStr ''$emit''))"
    by (simp add: get_member_def component_def object_literal_def function_object_def)
  have a: "invoke (const_host x) (descriptor_value ?d) component [JNum 1]
            = \<lparr>outcome = Inr x, this_after = component, emitted = [], then_calls = []\<rparr>" for x
    by (simp add: function_object_def host_call_def const_host_def finished_def)
  have t: "get_member ?p (KStr ''then'') = function_object PromiseThen"
    by (simp add: get_member_def promise_prototype_def)
  have p: "isPromise ?p"
    by (simp add: isPromise_def instanceof_Promise_def promise_prototype_def)
  have tf: "outside_function (get_member ?p (KStr ''then''))"
    by (simp add: t function_object_def)
  have tq: "get_member ?q (KStr ''then'') = function_object (UserFn 2)"
    by (simp add: get_member_def object_literal_def)
  have q: "isPromise ?q"
    unfolding isPromise_def tq by (simp add: object_literal_def function_object_def)
  have tfq: "outside_function (get_member ?q (KStr ''then''))"
    unfolding tq by (simp add: function_object_def)
  note w = Emit_deferred [OF m a p, where event = JUndefined and key = "''doThing''"]
  note wq = Emit_deferred [OF m a q, where event = JUndefined and key = "''doThing''"]
  have np: "is_native_promise ?p" "function_of (get_member ?p (KStr ''then'')) = Some PromiseThen"
    by (simp_all add: t function_object_def)
  have nq: "function_of (get_member ?q (KStr ''then'')) \<noteq> Some PromiseThen"
    "fst (call_function (const_host ?q) (get_member ?q (KStr ''then'')) ?q
            [emit_callback JUndefined (hyphenate ''doThing'') [JNum 1]]) = Inr ?q"
    unfolding tq by (simp_all add: function_object_def const_host_def)
  have 1: "call_method (const_host ?p) (Emit JUndefined ''doThing'' ?d) component [JNum 1]
     = \<lparr>outcome = Inr JUndefined, this_after = component, emitted = [],
        then_calls = [(?p, [emit_callback JUndefined ''do-thing'' [JNum 1]])]\<rparr>"
    using w tf emitter_native(2) [OF np] unfolding call_Emit [OF m a] by (simp add: k)
  have 2: "call_method (const_host ?q) (Emit JUndefined ''doThing'' ?d) component [JNum 1]
     = \<lparr>outcome = Inr JUndefined, this_after = component, emitted = [],
        then_calls = [(?q, [emit_callback JUndefined ''do-thing'' [JNum 1]])]\<rparr>"
    using wq tfq emitter_thenable [OF q tfq nq] unfolding call_Emit [OF m a] by (simp add: k)
  have c: "outside_function (get_member component (KStr ''$emit''))
           \<and> call_function (const_host ?p) (get_member component (KStr ''$emit'')) component
              (js_or JUndefined (JStr (hyphenate ''doThing'')) # unshift (JStr ''ok'') [JNum 1])
            = (Inr ?p, component)"
    using e by (simp add: const_host_def)
  have 3: "on_settled (const_host ?p) [emit_callback JUndefined ''do-thing'' [JNum 1]]
       component (Fulfilled (JStr ''ok''))
     = \<lparr>outcome = Inr JUndefined, this_after = component,
        emitted = [(JStr ''do-thing'', [JStr ''ok'', JNum 1])], then_calls = []\<rparr>"
    using w c by (simp add: k js_or_def unshift_def)
  have 4: "snd (run_callback (const_host ?p) (emit_callback JUndefined ''do-thing'' [JNum 1])
                 component (JStr ''ok''))
     = emit_callback JUndefined ''do-thing'' [JStr ''ok'', JNum 1]"
    using w by (simp add: k unshift_def)
  have 5: "on_settled (const_host ?p) [emit_callback JUndefined ''do-thing'' [JNum 1]]
       component (Rejected (JStr ''no''))
     = \<lparr>outcome = Inr JUndefined, this_after = component, emitted = [], then_calls = []\<rparr>"
    using w by (simp add: k finished_def)
  show ?thesis
    using 1 2 3 4 5 by simp
qed

text \<open>
  C9. Whatever a method wrapped by \<^verbatim>\<open>Emit\<close> is called with, the only value the wrapper ever
  returns is \<^verbatim>\<open>undefined\<close>. And when the original method, called through the built-in
  \<^verbatim>\<open>apply\<close>, returns \<open>v\<close>, the wrapper does return \<^verbatim>\<open>undefined\<close>, and not \<open>v\<close>, in each of these
  cases: \<open>v\<close> is not promise-like and the call of the instance's \<^verbatim>\<open>$emit\<close>, a function
  written outside this file, returns; \<open>v\<close> is a native promise whose \<^verbatim>\<open>then\<close> is the built-in
  one; \<open>v\<close> is promise-like with a \<^verbatim>\<open>then\<close> written outside this file and the call of it
  returns. The value \<^verbatim>\<open>$emit\<close> or \<^verbatim>\<open>then\<close> returns is dropped as well.
\<close>

theorem Emit_returns_undefined:
  "(\<forall>x. outcome (call_method h (Emit event key d) this args) = Inr x \<longrightarrow> x = JUndefined)
   \<and> (\<forall>v this1 es ts.
        function_of (get_member (descriptor_value d) (KStr ''apply'')) = Some FunctionApply
        \<and> invoke h (descriptor_value d) this args
            = \<lparr>outcome = Inr v, this_after = this1, emitted = es, then_calls = ts\<rparr>
        \<and> (\<not> isPromise v \<and> outside_function (get_member this1 (KStr ''$emit''))
             \<and> (\<exists>r. fst (call_function h (get_member this1 (KStr ''$emit'')) this1
                          (js_or event (JStr (hyphenate key)) # unshift v args)) = Inr r)
           \<or> is_native_promise v
             \<and> function_of (get_member v (KStr ''then'')) = Some PromiseThen
           \<or> isPromise v \<and> outside_function (get_member v (KStr ''then''))
             \<and> function_of (get_member v (KStr ''then'')) \<noteq> Some PromiseThen
             \<and> (\<exists>r. fst (call_function h (get_member v (KStr ''then'')) v
                          [emit_callback event (hyphenate key) args]) = Inr r))
        \<longrightarrow> outcome (call_method h (Emit event key d) this args) = Inr JUndefined)"
proof (intro conjI allI impI)
  fix x
  assume r: "outcome (call_method h (Emit event key d) this args) = Inr x"
  show "x = JUndefined"
    using r
    by (auto simp: call_method_def Emit_def Let_def function_object_def emitter_def finished_def
        dest: emit_returns split: if_splits sum.splits)
next
  fix v this1 es ts
  assume h: "function_of (get_member (descriptor_value d) (KStr ''apply'')) = Some FunctionApply
        \<and> invoke h (descriptor_value d) this args
            = \<lparr>outcome = Inr v, this_after = this1, emitted = es, then_calls = ts\<rparr>
        \<and> (\<not> isPromise v \<and> outside_function (get_member this1 (KStr ''$emit''))
             \<and> (\<exists>r. fst (call_function h (get_member this1 (KStr ''$emit'')) this1
                          (js_or event (JStr (hyphenate key)) # unshift v args)) = Inr r)
           \<or> is_native_promise v
             \<and> function_of (get_member v (KStr ''then'')) = Some PromiseThen
           \<or> isPromise v \<and> outside_function (get_member v (KStr ''then''))
             \<and> function_of (get_member v (KStr ''then'')) \<noteq> Some PromiseThen
             \<and> (\<exists>r. fst (call_function h (get_member v (KStr ''then'')) v
                          [emit_callback event (hyphenate key) args]) = Inr r))"
  then have m: "function_of (get_member (descriptor_value d) (KStr ''apply'')) = Some FunctionApply"
    and a: "invoke h (descriptor_value d) this args
          = \<lparr>outcome = Inr v, this_after = this1, emitted = es, then_calls = ts\<rparr>"
    by simp_all
  let ?r = "emitter h event (hyphenate key) (descriptor_value d)
               \<lparr>outcome = Inr v, this_after = this1, emitted = es, then_calls = ts\<rparr> args"
  consider
    (immediate) "\<not> isPromise v" "outside_function (get_member this1 (KStr ''$emit''))"
      "\<exists>r. fst (call_function h (get_member this1 (KStr ''$emit'')) this1
                  (js_or event (JStr (hyphenate key)) # unshift v args)) = Inr r"
    | (native) "is_native_promise v" "function_of (get_member v (KStr ''then'')) = Some PromiseThen"
    | (thenable) "isPromise v" "outside_function (get_member v (KStr ''then''))"
      "function_of (get_member v (KStr ''then'')) \<noteq> Some PromiseThen"
      "\<exists>r. fst (call_function h (get_member v (KStr ''then'')) v
                  [emit_callback event (hyphenate key) args]) = Inr r"
    using h by blast
  then have "outcome ?r = Inr JUndefined"
  proof cases
    case immediate
    have "typeof (get_member this1 (KStr ''$emit'')) = ''function''"
      using immediate(2) by (rule outside_function_typeof)
    then show ?thesis
      using immediate by (auto simp: emitter_def Let_def emit_callable)
  next
    case native
    have t: "typeof (get_member v (KStr ''then'')) = ''function''"
      using native(2) by (cases "get_member v (KStr ''then'')" rule: function_of.cases) simp_all
    have "isPromise v"
      using native(1) t
      by (cases v rule: is_native_promise.cases) (simp_all add: isPromise_def)
    then show ?thesis
      using native t by (simp add: emitter_def Let_def)
  next
    case thenable
    have "typeof (get_member v (KStr ''then'')) = ''function''"
      using thenable(2) by (rule outside_function_typeof)
    then show ?thesis
      using thenable by (auto simp: emitter_def Let_def emit_callback_def)
  qed
  then show "outcome (call_method h (Emit event key d) this args) = Inr JUndefined"
    by (simp add: call_Emit [OF m a])
qed

theorem Emit_returns_undefined_witness:
  "outcome (call_method (const_host (JNum 5))
       (Emit JUndefined ''doThing'' \<lparr>descriptor_value = function_object (UserFn 0)\<rparr>)
       component [JNum 1, JNum 2]) = Inr JUndefined
   \<and> outcome (call_method (const_host (JObject (Prom 0) promise_prototype []))
       (Emit JUndefined ''doThing'' \<lparr>descriptor_value = function_object (UserFn 0)\<rparr>)
       component [JNum 1, JNum 2]) = Inr JUndefined"
proof -
  let ?d = "\<lparr>descriptor_value = function_object (UserFn 0)\<rparr>"
  let ?p = "JObject (Prom 0) promise_prototype []"
  have m: "function_of (get_member (descriptor_value ?d) (KStr ''apply'')) = Some FunctionApply"
    by (simp add: function_object_def function_prototype_def get_member_def)
  have e: "outside_function (get_member component (KStr ''$emit''))"
    by (simp add: get_member_def component_def object_literal_def function_object_def)
  have a: "invoke (const_host x) (descriptor_value ?d) component [JNum 1, JNum 2]
            = \<lparr>outcome = Inr x, this_after = component, emitted = [], then_calls = []\<rparr>" for x
    by (simp add: function_object_def host_call_def const_host_def finished_def)
  have i5: "\<not> isPromise (JNum 5)"
    by (simp add: isPromise_def instanceof_Promise_def get_member_def)
  have c: "\<exists>r. fst (call_function (const_host (JNum 5)) (get_member component (KStr ''$emit''))
                  component (js_or JUndefined (JStr (hyphenate ''doThing''))
                             # unshift (JNum 5) [JNum 1, JNum 2])) = Inr r"
    by (simp add: const_host_def)
  have t: "function_of (get_member ?p (KStr ''then'')) = Some PromiseThen"
    by (simp add: get_member_def promise_prototype_def function_object_def)
  have n: "is_native_promise ?p"
    by simp
  note w1 = Emit_returns_undefined [of "const_host (JNum 5)" JUndefined "''doThing''" ?d
      component "[JNum 1, JNum 2]"]
  note w2 = Emit_returns_undefined [of "const_host ?p" JUndefined "''doThing''" ?d
      component "[JNum 1, JNum 2]"]
  have 1: "outcome (call_method (const_host (JNum 5)) (Emit JUndefined ''doThing'' ?d)
             component [JNum 1, JNum 2]) = Inr JUndefined"
    using w1 m a [of "JNum 5"] i5 e c by blast
  have 2: "outcome (call_method (const_host ?p) (Emit JUndefined ''doThing'' ?d)
             component [JNum 1, JNum 2]) = Inr JUndefined"
    using w2 m a [of ?p] t n by blast
  show ?thesis
    using 1 2 by simp
qed

end
